theory Spec2Isabelle
  imports Complex_Main "HOL-Library.Word" "HOL-Library.Multiset"
begin

unbundle bit_operations_syntax

section \<open>JavaScript strings\<close>

text \<open>
  A JavaScript string is a sequence of UTF-16 code units, and \<open>length\<close>, \<open>substring\<close> and
  \<open>trim\<close> count code units. The model keeps that: a string is a list of 16-bit words.
  \<open>lit\<close> turns an ASCII literal of the source text into its code units; \<open>\<newline>\<close> is the line
  feed of a template literal's line break.
\<close>

type_synonym jsstring = "16 word list"

definition lit :: "string \<Rightarrow> jsstring" where
  "lit s = map (\<lambda>c. of_char c) s"

text \<open>
  \<open>String.prototype.substring(start, end)\<close>: both indices are clamped to the length and
  swapped when \<open>start > end\<close>.
\<close>

definition substring :: "jsstring \<Rightarrow> nat \<Rightarrow> nat \<Rightarrow> jsstring" where
  "substring s start fin =
     (let a = min start (length s); b = min fin (length s)
      in take (max a b - min a b) (drop (min a b) s))"

text \<open>
  \<open>String.prototype.trim\<close> strips the code units of the grammar's WhiteSpace and
  LineTerminator productions from both ends: TAB, LF, VT, FF, CR, SP, NBSP, the other
  space separators U+1680, U+2000 to U+200A, U+202F, U+205F, U+3000, the separators U+2028 and
  U+2029, and U+FEFF.
\<close>

definition is_js_whitespace :: "16 word \<Rightarrow> bool" where
  "is_js_whitespace c =
     (c = 0x9 \<or> c = 0xA \<or> c = 0xB \<or> c = 0xC \<or> c = 0xD \<or> c = 0x20 \<or> c = 0xA0 \<or>
      c = 0x1680 \<or> (0x2000 \<le> c \<and> c \<le> 0x200A) \<or> c = 0x2028 \<or> c = 0x2029 \<or>
      c = 0x202F \<or> c = 0x205F \<or> c = 0x3000 \<or> c = 0xFEFF)"

definition trim :: "jsstring \<Rightarrow> jsstring" where
  "trim s = rev (dropWhile is_js_whitespace (rev (dropWhile is_js_whitespace s)))"

text \<open>\<open>Array.prototype.join\<close> on an array of strings.\<close>

fun join :: "jsstring \<Rightarrow> jsstring list \<Rightarrow> jsstring" where
  "join sep [] = []"
| "join sep [x] = x"
| "join sep (x # y # ys) = x @ sep @ join sep (y # ys)"

section \<open>Numbers and their renderings\<close>

text \<open>
  A score is a JavaScript number read from JSON, hence never NaN; it is modelled by the real
  it denotes. Line numbers and counts are integral numbers, modelled as \<open>int\<close> and \<open>nat\<close>.
  \<open>digits_of n\<close> is the decimal rendering that \<open>Number::toString\<close> gives an integral number
  below \<open>10^21\<close>.
\<close>

definition digit_char :: "nat \<Rightarrow> 16 word" where
  "digit_char d = of_nat (48 + d)"

function digits_of :: "nat \<Rightarrow> jsstring" where
  "digits_of n = (if n < 10 then [digit_char n] else digits_of (n div 10) @ [digit_char (n mod 10)])"
  by pat_completeness auto
termination
  by (relation "measure id") auto

declare digits_of.simps [simp del]

definition int_to_string :: "int \<Rightarrow> jsstring" where
  "int_to_string i = (if i < 0 then lit ''-'' @ digits_of (nat (- i)) else digits_of (nat i))"

text \<open>
  \<open>Number.prototype.toFixed(3)\<close>: the sign is split off, \<open>n\<close> is the integer nearest to
  \<open>1000 * x\<close> (the larger one on a tie), its digits are padded with zeros to four places and
  the point goes before the last three. (From \<open>10^21\<close> on JavaScript switches to the
  exponent notation of \<open>ToString\<close>; similarity scores are far below.)
\<close>

definition pad_zeros :: "nat \<Rightarrow> jsstring \<Rightarrow> jsstring" where
  "pad_zeros k m = replicate (k - length m) (digit_char 0) @ m"

definition toFixed3 :: "real \<Rightarrow> jsstring" where
  "toFixed3 x =
     (let s = (if x < 0 then lit ''-'' else []);
          y = (if x < 0 then - x else x);
          n = nat \<lfloor>y * 1000 + 1 / 2\<rfloor>;
          m = pad_zeros 4 (digits_of n);
          k = length m
      in s @ take (k - 3) m @ lit ''.'' @ drop (k - 3) m)"

section \<open>Data model\<close>

text \<open>
  The interfaces of both source files. A payload is a JSON object; the four keys the code
  reads carry values of the types the interface \<open>Payload\<close> declares, and each key may be
  absent (\<open>None\<close>), which is what the \<open>in\<close> test and the truthiness tests of the code look
  at. Further keys (\<open>pathSegments\<close>) are never read and are left out. The payload of a point
  is an object, \<open>null\<close> or \<open>undefined\<close>.
\<close>

record Payload =
  filePath :: "jsstring option"
  codeChunk :: "jsstring option"
  startLine :: "int option"
  endLine :: "int option"

datatype payload_slot = PayloadUndefined | PayloadNull | PayloadObj Payload

datatype point_id = IdString jsstring | IdNumber int

record VectorStoreSearchResult =
  point_id :: point_id
  score :: real
  payload :: payload_slot

text \<open>
  \<open>transformSearchResult\<close> copies \<open>startLine\<close> and \<open>endLine\<close> as they are, so a result
  built from a payload without them holds \<open>undefined\<close> there (\<open>None\<close>).
\<close>

record SearchResult =
  r_filePath :: jsstring
  r_score :: real
  r_startLine :: "int option"
  r_endLine :: "int option"
  r_codeChunk :: jsstring

record EmbeddingResponse =
  embeddings :: "real list list option"

text \<open>
  What a \<open>throw\<close> carries: an \<open>Error\<close> object with its message, or any other value. The
  handlers of the code only ask \<open>error instanceof Error\<close> and read \<open>error.message\<close>.
\<close>

datatype thrown = ErrorObj jsstring | NonError

definition error_message :: "thrown \<Rightarrow> jsstring" where
  "error_message e = (case e of ErrorObj m \<Rightarrow> m | NonError \<Rightarrow> lit ''Unknown error'')"

section \<open>Values of the validity test\<close>

text \<open>
  The filter's callback returns the value of an \<open>&&\<close> chain, not a boolean; \<open>filter\<close> then
  applies \<open>ToBoolean\<close>. \<open>a && b\<close> is \<open>a\<close> when \<open>a\<close> is falsy and \<open>b\<close> otherwise.
\<close>

datatype jsval = JUndefined | JNull | JBool bool | JNum int | JStr jsstring

fun truthy :: "jsval \<Rightarrow> bool" where
  "truthy JUndefined = False"
| "truthy JNull = False"
| "truthy (JBool b) = b"
| "truthy (JNum n) = (n \<noteq> 0)"
| "truthy (JStr s) = (s \<noteq> [])"

definition js_and :: "jsval \<Rightarrow> jsval \<Rightarrow> jsval" where
  "js_and a b = (if truthy a then b else a)"

definition get_str :: "jsstring option \<Rightarrow> jsval" where
  "get_str f = (case f of None \<Rightarrow> JUndefined | Some s \<Rightarrow> JStr s)"

definition get_num :: "int option \<Rightarrow> jsval" where
  "get_num f = (case f of None \<Rightarrow> JUndefined | Some n \<Rightarrow> JNum n)"

section \<open>Filter and transform (roosearch.ts)\<close>

text \<open>
  \<open>isValid\<close> is the callback of \<open>filterValidResults\<close>. When the payload is \<open>null\<close> or
  \<open>undefined\<close> the chain stops at its first operand, so the \<open>in\<close> test, which would throw on
  them, is not evaluated.
\<close>

definition isValid :: "VectorStoreSearchResult \<Rightarrow> jsval" where
  "isValid result =
     (case payload result of
        PayloadUndefined \<Rightarrow> JUndefined
      | PayloadNull \<Rightarrow> JNull
      | PayloadObj p \<Rightarrow>
          js_and (js_and (js_and (js_and
            (JBool (filePath p \<noteq> None))
            (get_str (filePath p)))
            (get_num (startLine p)))
            (get_num (endLine p)))
            (get_str (codeChunk p)))"

definition filterValidResults :: "VectorStoreSearchResult list \<Rightarrow> VectorStoreSearchResult list" where
  "filterValidResults results = filter (\<lambda>result. truthy (isValid result)) results"

text \<open>
  \<open>transformSearchResult\<close> returns \<open>null\<close> (\<open>Inr None\<close>) without a payload or without the key
  \<open>filePath\<close>. Otherwise it calls \<open>trim\<close> on \<open>payload.codeChunk\<close>; on a payload without that key
  this is a property read on \<open>undefined\<close>, which throws a \<open>TypeError\<close> (the message is V8's).
\<close>

definition trim_of_undefined :: thrown where
  "trim_of_undefined = ErrorObj (lit ''Cannot read properties of undefined (reading 'trim')'')"

definition transformSearchResult :: "VectorStoreSearchResult \<Rightarrow> thrown + SearchResult option" where
  "transformSearchResult result =
     (case payload result of
        PayloadUndefined \<Rightarrow> Inr None
      | PayloadNull \<Rightarrow> Inr None
      | PayloadObj p \<Rightarrow>
          (case filePath p of
             None \<Rightarrow> Inr None
           | Some fp \<Rightarrow>
               (case codeChunk p of
                  None \<Rightarrow> Inl trim_of_undefined
                | Some c \<Rightarrow>
                    Inr (Some \<lparr>r_filePath = fp, r_score = score result,
                               r_startLine = startLine p, r_endLine = endLine p,
                               r_codeChunk = trim c\<rparr>))))"

text \<open>\<open>Array.prototype.map\<close> with a callback that may throw: the first throw ends the call.\<close>

fun map_throwing :: "('a \<Rightarrow> thrown + 'b) \<Rightarrow> 'a list \<Rightarrow> thrown + 'b list" where
  "map_throwing f [] = Inr []"
| "map_throwing f (x # xs) =
     (case f x of
        Inl e \<Rightarrow> Inl e
      | Inr y \<Rightarrow> (case map_throwing f xs of Inl e \<Rightarrow> Inl e | Inr ys \<Rightarrow> Inr (y # ys)))"

fun drop_nulls :: "'a option list \<Rightarrow> 'a list" where
  "drop_nulls [] = []"
| "drop_nulls (None # xs) = drop_nulls xs"
| "drop_nulls (Some x # xs) = x # drop_nulls xs"

definition transformResults :: "VectorStoreSearchResult list \<Rightarrow> thrown + SearchResult list" where
  "transformResults results =
     (let filteredResults = filterValidResults results
      in case map_throwing transformSearchResult filteredResults of
           Inl e \<Rightarrow> Inl e
         | Inr transformed \<Rightarrow> Inr (drop_nulls transformed))"

section \<open>Formatting (roosearch.ts)\<close>

text \<open>A template interpolation of a line number: \<open>undefined\<close> prints as that word.\<close>

definition line_to_string :: "int option \<Rightarrow> jsstring" where
  "line_to_string l = (case l of None \<Rightarrow> lit ''undefined'' | Some n \<Rightarrow> int_to_string n)"

definition formatSearchResult :: "SearchResult \<Rightarrow> jsstring" where
  "formatSearchResult result =
     lit ''File: '' @ r_filePath result @
     lit ''\<newline>Score: '' @ toFixed3 (r_score result) @
     lit ''\<newline>Lines: '' @ line_to_string (r_startLine result) @ lit ''-'' @
       line_to_string (r_endLine result) @
     lit ''\<newline>Code:\<newline>```\<newline>'' @ r_codeChunk result @
     lit ''\<newline>```\<newline>''"

text \<open>
  \<open>Array.prototype.sort\<close> with a comparator. The sort is stable, and a comparator that is
  consistent (as a difference of scores is) leaves one possible result: the elements in
  comparator order, equal ones in their input order. The model builds it by insertion, an
  element staying in front of a later one when the comparator's value is not positive.
\<close>

fun sort_insert :: "('a \<Rightarrow> 'a \<Rightarrow> real) \<Rightarrow> 'a \<Rightarrow> 'a list \<Rightarrow> 'a list" where
  "sort_insert cmp x [] = [x]"
| "sort_insert cmp x (y # ys) =
     (if cmp x y \<le> 0 then x # y # ys else y # sort_insert cmp x ys)"

fun js_sort :: "('a \<Rightarrow> 'a \<Rightarrow> real) \<Rightarrow> 'a list \<Rightarrow> 'a list" where
  "js_sort cmp [] = []"
| "js_sort cmp (x # xs) = sort_insert cmp x (js_sort cmp xs)"

text \<open>The comparator \<open>(a, b) => b.score - a.score\<close>.\<close>

definition by_score_desc :: "SearchResult \<Rightarrow> SearchResult \<Rightarrow> real" where
  "by_score_desc a b = r_score b - r_score a"

text \<open>The copy \<open>[...resultsArray]\<close> that is sorted; \<open>results\<close> itself is not touched.\<close>

definition sortedResults :: "SearchResult list \<Rightarrow> SearchResult list" where
  "sortedResults results = js_sort by_score_desc results"

definition plural_s :: "nat \<Rightarrow> jsstring" where
  "plural_s n = (if n \<noteq> 1 then lit ''s'' else [])"

definition formatResults :: "SearchResult list \<Rightarrow> jsstring \<Rightarrow> jsstring" where
  \<open>formatResults results query =
     (if length results = 0 then
        lit ''Query: "'' @ query @ lit ''"\<newline>\<newline>No results found.''
      else
        (let formattedResults = join (lit ''\<newline>\<newline>'') (map formatSearchResult (sortedResults results))
         in lit ''Query: "'' @ query @
            lit ''"\<newline>\<newline>Found '' @ digits_of (length results) @ lit '' result'' @
              plural_s (length results) @
            lit '':\<newline>\<newline>'' @ formattedResults @
            lit ''\<newline>\<newline>---\<newline>Search completed with '' @ digits_of (length results) @
              lit '' result'' @ plural_s (length results) @ lit ''.''))\<close>

section \<open>Filter, transform and formatting of the fixed-collection tool (unnamed/part_000)\<close>

text \<open>
  The second source file defines the same functions again. Each is translated from that
  file's text; the suffix \<open>_fixed\<close> tells them apart.
\<close>

definition filterValidResults_fixed ::
  "VectorStoreSearchResult list \<Rightarrow> VectorStoreSearchResult list" where
  "filterValidResults_fixed results =
     filter (\<lambda>result. truthy
       (case payload result of
          PayloadUndefined \<Rightarrow> JUndefined
        | PayloadNull \<Rightarrow> JNull
        | PayloadObj p \<Rightarrow>
            js_and (js_and (js_and (js_and
              (JBool (filePath p \<noteq> None))
              (get_str (filePath p)))
              (get_num (startLine p)))
              (get_num (endLine p)))
              (get_str (codeChunk p)))) results"

definition transformSearchResult_fixed ::
  "VectorStoreSearchResult \<Rightarrow> thrown + SearchResult option" where
  "transformSearchResult_fixed result =
     (case payload result of
        PayloadUndefined \<Rightarrow> Inr None
      | PayloadNull \<Rightarrow> Inr None
      | PayloadObj p \<Rightarrow>
          (case filePath p of
             None \<Rightarrow> Inr None
           | Some fp \<Rightarrow>
               (case codeChunk p of
                  None \<Rightarrow> Inl trim_of_undefined
                | Some c \<Rightarrow>
                    Inr (Some \<lparr>r_filePath = fp, r_score = score result,
                               r_startLine = startLine p, r_endLine = endLine p,
                               r_codeChunk = trim c\<rparr>))))"

definition transformResults_fixed ::
  "VectorStoreSearchResult list \<Rightarrow> thrown + SearchResult list" where
  "transformResults_fixed results =
     (let filteredResults = filterValidResults_fixed results
      in case map_throwing transformSearchResult_fixed filteredResults of
           Inl e \<Rightarrow> Inl e
         | Inr transformed \<Rightarrow> Inr (drop_nulls transformed))"

definition formatSearchResult_fixed :: "SearchResult \<Rightarrow> jsstring" where
  "formatSearchResult_fixed result =
     lit ''File: '' @ r_filePath result @
     lit ''\<newline>Score: '' @ toFixed3 (r_score result) @
     lit ''\<newline>Lines: '' @ line_to_string (r_startLine result) @ lit ''-'' @
       line_to_string (r_endLine result) @
     lit ''\<newline>Code:\<newline>```\<newline>'' @ r_codeChunk result @
     lit ''\<newline>```\<newline>''"

definition formatResults_fixed :: "SearchResult list \<Rightarrow> jsstring \<Rightarrow> jsstring" where
  \<open>formatResults_fixed results query =
     (if length results = 0 then
        lit ''Query: "'' @ query @ lit ''"\<newline>\<newline>No results found.''
      else
        (let sorted = js_sort (\<lambda>a b. r_score b - r_score a) results;
             formattedResults = join (lit ''\<newline>\<newline>'') (map formatSearchResult_fixed sorted)
         in lit ''Query: "'' @ query @
            lit ''"\<newline>\<newline>Found '' @ digits_of (length results) @ lit '' result'' @
              plural_s (length results) @
            lit '':\<newline>\<newline>'' @ formattedResults @
            lit ''\<newline>\<newline>---\<newline>Search completed with '' @ digits_of (length results) @
              lit '' result'' @ plural_s (length results) @ lit ''.''))\<close>

section \<open>The digest of a workspace path\<close>

text \<open>
  \<open>createHash("sha256").update(s).digest("hex")\<close> of Node's \<open>crypto\<close> module: the string is
  encoded as UTF-8, hashed with SHA-256 (FIPS 180-4) and the 32 bytes are written as 64
  lowercase hexadecimal digits. The encoder reads surrogate pairs as one code point and
  writes U+FFFD (\<open>EF BF BD\<close>) for a surrogate that has no partner.
\<close>

type_synonym byte = "8 word"
type_synonym u32 = "32 word"

definition replacement_bytes :: "byte list" where
  "replacement_bytes = [0xEF, 0xBF, 0xBD]"

definition utf8_cp :: "nat \<Rightarrow> byte list" where
  "utf8_cp n =
     (if n < 0x80 then [of_nat n]
      else if n < 0x800 then [of_nat (0xC0 + n div 64), of_nat (0x80 + n mod 64)]
      else if n < 0x10000 then
        [of_nat (0xE0 + n div 4096), of_nat (0x80 + (n div 64) mod 64), of_nat (0x80 + n mod 64)]
      else
        [of_nat (0xF0 + n div 262144), of_nat (0x80 + (n div 4096) mod 64),
         of_nat (0x80 + (n div 64) mod 64), of_nat (0x80 + n mod 64)])"

definition is_high_surrogate :: "16 word \<Rightarrow> bool" where
  "is_high_surrogate c = (0xD800 \<le> c \<and> c \<le> 0xDBFF)"

definition is_low_surrogate :: "16 word \<Rightarrow> bool" where
  "is_low_surrogate c = (0xDC00 \<le> c \<and> c \<le> 0xDFFF)"

fun utf8_encode :: "jsstring \<Rightarrow> byte list" where
  "utf8_encode [] = []"
| "utf8_encode [c] =
     (if is_high_surrogate c \<or> is_low_surrogate c then replacement_bytes else utf8_cp (unat c))"
| "utf8_encode (c # d # cs) =
     (if is_high_surrogate c then
        (if is_low_surrogate d
         then utf8_cp (0x10000 + (unat c - 0xD800) * 1024 + (unat d - 0xDC00)) @ utf8_encode cs
         else replacement_bytes @ utf8_encode (d # cs))
      else if is_low_surrogate c then replacement_bytes @ utf8_encode (d # cs)
      else utf8_cp (unat c) @ utf8_encode (d # cs))"

definition K256 :: "u32 list" where
  "K256 =
    [0x428A2F98, 0x71374491, 0xB5C0FBCF, 0xE9B5DBA5, 0x3956C25B, 0x59F111F1, 0x923F82A4, 0xAB1C5ED5,
     0xD807AA98, 0x12835B01, 0x243185BE, 0x550C7DC3, 0x72BE5D74, 0x80DEB1FE, 0x9BDC06A7, 0xC19BF174,
     0xE49B69C1, 0xEFBE4786, 0x0FC19DC6, 0x240CA1CC, 0x2DE92C6F, 0x4A7484AA, 0x5CB0A9DC, 0x76F988DA,
     0x983E5152, 0xA831C66D, 0xB00327C8, 0xBF597FC7, 0xC6E00BF3, 0xD5A79147, 0x06CA6351, 0x14292967,
     0x27B70A85, 0x2E1B2138, 0x4D2C6DFC, 0x53380D13, 0x650A7354, 0x766A0ABB, 0x81C2C92E, 0x92722C85,
     0xA2BFE8A1, 0xA81A664B, 0xC24B8B70, 0xC76C51A3, 0xD192E819, 0xD6990624, 0xF40E3585, 0x106AA070,
     0x19A4C116, 0x1E376C08, 0x2748774C, 0x34B0BCB5, 0x391C0CB3, 0x4ED8AA4A, 0x5B9CCA4F, 0x682E6FF3,
     0x748F82EE, 0x78A5636F, 0x84C87814, 0x8CC70208, 0x90BEFFFA, 0xA4506CEB, 0xBEF9A3F7, 0xC67178F2]"

type_synonym hstate = "u32 \<times> u32 \<times> u32 \<times> u32 \<times> u32 \<times> u32 \<times> u32 \<times> u32"

definition H0 :: hstate where
  "H0 = (0x6A09E667, 0xBB67AE85, 0x3C6EF372, 0xA54FF53A,
         0x510E527F, 0x9B05688C, 0x1F83D9AB, 0x5BE0CD19)"

definition rotr :: "nat \<Rightarrow> u32 \<Rightarrow> u32" where
  "rotr n x = drop_bit n x OR push_bit (32 - n) x"

definition Ch :: "u32 \<Rightarrow> u32 \<Rightarrow> u32 \<Rightarrow> u32" where
  "Ch x y z = (x AND y) XOR (NOT x AND z)"

definition Maj :: "u32 \<Rightarrow> u32 \<Rightarrow> u32 \<Rightarrow> u32" where
  "Maj x y z = (x AND y) XOR (x AND z) XOR (y AND z)"

definition Sigma0 :: "u32 \<Rightarrow> u32" where
  "Sigma0 x = rotr 2 x XOR rotr 13 x XOR rotr 22 x"

definition Sigma1 :: "u32 \<Rightarrow> u32" where
  "Sigma1 x = rotr 6 x XOR rotr 11 x XOR rotr 25 x"

definition sigma0 :: "u32 \<Rightarrow> u32" where
  "sigma0 x = rotr 7 x XOR rotr 18 x XOR drop_bit 3 x"

definition sigma1 :: "u32 \<Rightarrow> u32" where
  "sigma1 x = rotr 17 x XOR rotr 19 x XOR drop_bit 10 x"

text \<open>The sixteen big-endian words of a 64-byte block.\<close>

fun be32 :: "byte list \<Rightarrow> u32 list" where
  "be32 (a # b # c # d # bs) =
     (push_bit 24 (ucast a) OR push_bit 16 (ucast b) OR push_bit 8 (ucast c) OR ucast d) # be32 bs"
| "be32 _ = []"

definition sha_round :: "hstate \<Rightarrow> u32 \<Rightarrow> u32 \<Rightarrow> hstate" where
  "sha_round s k w =
     (case s of (a, b, c, d, e, f, g, h) \<Rightarrow>
        (let t1 = h + Sigma1 e + Ch e f g + k + w;
             t2 = Sigma0 a + Maj a b c
         in (t1 + t2, a, b, c, d + t1, e, f, g)))"

text \<open>
  The message schedule is kept as a window of the last sixteen words: round \<open>t\<close> uses the
  head and appends \<open>W\<^sub>t\<^sub>+\<^sub>1\<^sub>6\<close>.
\<close>

definition next_w :: "u32 list \<Rightarrow> u32" where
  "next_w w = sigma1 (w ! 14) + w ! 9 + sigma0 (w ! 1) + w ! 0"

fun rounds :: "u32 list \<Rightarrow> u32 list \<Rightarrow> hstate \<Rightarrow> hstate" where
  "rounds [] w s = s"
| "rounds (k # ks) w s = rounds ks (tl w @ [next_w w]) (sha_round s k (hd w))"

definition add_state :: "hstate \<Rightarrow> hstate \<Rightarrow> hstate" where
  "add_state s t =
     (case s of (a, b, c, d, e, f, g, h) \<Rightarrow>
      case t of (a', b', c', d', e', f', g', h') \<Rightarrow>
        (a + a', b + b', c + c', d + d', e + e', f + f', g + g', h + h'))"

definition compress :: "hstate \<Rightarrow> byte list \<Rightarrow> hstate" where
  "compress s blk = add_state s (rounds K256 (be32 blk) s)"

definition be64 :: "64 word \<Rightarrow> byte list" where
  "be64 n = [ucast (drop_bit 56 n), ucast (drop_bit 48 n), ucast (drop_bit 40 n),
             ucast (drop_bit 32 n), ucast (drop_bit 24 n), ucast (drop_bit 16 n),
             ucast (drop_bit 8 n), ucast n]"

definition pad :: "byte list \<Rightarrow> byte list" where
  "pad m = m @ [0x80] @ replicate ((119 - length m mod 64) mod 64) 0 @ be64 (of_nat (8 * length m))"

function blocks :: "byte list \<Rightarrow> byte list list" where
  "blocks bs = (if length bs < 64 then [] else take 64 bs # blocks (drop 64 bs))"
  by pat_completeness auto
termination
  by (relation "measure length") auto

declare blocks.simps [simp del]

definition sha256 :: "byte list \<Rightarrow> hstate" where
  "sha256 m = foldl compress H0 (blocks (pad m))"

definition hexdigit :: "u32 \<Rightarrow> 16 word" where
  "hexdigit n = (if n < 10 then 48 + ucast n else 87 + ucast n)"

definition hex32 :: "u32 \<Rightarrow> jsstring" where
  "hex32 w = [hexdigit (drop_bit 28 w AND 0xF), hexdigit (drop_bit 24 w AND 0xF),
              hexdigit (drop_bit 20 w AND 0xF), hexdigit (drop_bit 16 w AND 0xF),
              hexdigit (drop_bit 12 w AND 0xF), hexdigit (drop_bit 8 w AND 0xF),
              hexdigit (drop_bit 4 w AND 0xF), hexdigit (w AND 0xF)]"

definition hex_digest :: "hstate \<Rightarrow> jsstring" where
  "hex_digest s =
     (case s of (a, b, c, d, e, f, g, h) \<Rightarrow>
        hex32 a @ hex32 b @ hex32 c @ hex32 d @ hex32 e @ hex32 f @ hex32 g @ hex32 h)"

definition sha256_hex :: "jsstring \<Rightarrow> jsstring" where
  "sha256_hex s = hex_digest (sha256 (utf8_encode s))"

section \<open>Configuration and collection name (roosearch.ts)\<close>

record RooSearchConfig =
  qdrantClientUrl :: jsstring
  embeddingServiceUrl :: jsstring
  embeddingModel :: jsstring
  searchScoreThreshold :: real
  searchLimit :: nat
  hnswEf :: nat
  hnswExact :: bool
  payloadIncludeFields :: "jsstring list"
  hashLength :: nat

definition ROO_SEARCH_CONFIG :: RooSearchConfig where
  "ROO_SEARCH_CONFIG =
     \<lparr>qdrantClientUrl = lit ''http://localhost:6333'',
      embeddingServiceUrl = lit ''http://localhost:11434/api/embed'',
      embeddingModel = lit ''nomic-embed-text'',
      searchScoreThreshold = 0.40,
      searchLimit = 50,
      hnswEf = 128,
      hnswExact = False,
      payloadIncludeFields =
        [lit ''filePath'', lit ''codeChunk'', lit ''startLine'', lit ''endLine'', lit ''pathSegments''],
      hashLength = 16\<rparr>"

definition getWorkspaceVectorStoreName :: "jsstring \<Rightarrow> jsstring" where
  "getWorkspaceVectorStoreName workspacePath =
     (let hash = sha256_hex workspacePath
      in lit ''ws-'' @ substring hash 0 (hashLength ROO_SEARCH_CONFIG))"

section \<open>The two network services\<close>

text \<open>
  The embedding endpoint and the vector database are outside the repository. One run of
  the pipeline sees them as two functions from the request the code sends to what the
  awaited call gives back: a value, or a throw (\<open>Inl\<close>). The body of the POST is
  \<open>JSON.stringify({model, input})\<close>; the model keeps its two fields.
\<close>

record fetch_init =
  fi_method :: jsstring
  fi_content_type :: jsstring
  fi_model :: jsstring
  fi_input :: jsstring

record http_response =
  ok :: bool
  statusText :: jsstring
  json :: "thrown + EmbeddingResponse"

text \<open>The search request; \<open>sr_query\<close> is \<open>None\<close> when \<open>embeddings[0]\<close> is \<open>undefined\<close>.\<close>

record search_request =
  sr_query :: "real list option"
  sr_filter :: jsval
  sr_score_threshold :: real
  sr_limit :: nat
  sr_hnsw_ef :: nat
  sr_exact :: bool
  sr_include :: "jsstring list"

record services =
  fetch :: "jsstring \<Rightarrow> fetch_init \<Rightarrow> thrown + http_response"
  qdrant_query :: "jsstring \<Rightarrow> jsstring \<Rightarrow> search_request \<Rightarrow> thrown + VectorStoreSearchResult list"

text \<open>
  \<open>qdrant_query env url collection request\<close> is \<open>query(collection, request)\<close> on the client
  built for \<open>url\<close>, already projected to \<open>operationResult.points\<close>.
\<close>

section \<open>The pipeline (roosearch.ts)\<close>

text \<open>
  \<open>createEmbeddings\<close>: everything in the \<open>try\<close> block that throws, the non-2xx \<open>Error\<close>
  included, reaches the \<open>catch\<close>, which throws a new \<open>Error\<close>. (\<open>console.error\<close> writes a
  diagnostic and has no part in the value.)
\<close>

definition createEmbeddings :: "services \<Rightarrow> jsstring \<Rightarrow> thrown + EmbeddingResponse" where
  "createEmbeddings env input =
     (let url = embeddingServiceUrl ROO_SEARCH_CONFIG;
          model = embeddingModel ROO_SEARCH_CONFIG;
          attempt =
            (case fetch env url \<lparr>fi_method = lit ''POST'', fi_content_type = lit ''application/json'',
                                  fi_model = model, fi_input = input\<rparr> of
               Inl e \<Rightarrow> Inl e
             | Inr response \<Rightarrow>
                 if \<not> ok response
                 then Inl (ErrorObj (lit ''Failed to create embeddings: '' @ statusText response))
                 else json response)
      in case attempt of
           Inl error \<Rightarrow> Inl (ErrorObj (lit ''Embedding creation failed: '' @ error_message error))
         | Inr data \<Rightarrow> Inr data)"

text \<open>
  \<open>embedding.embeddings[0]\<close> is evaluated while the request is built, before the \<open>try\<close>: on
  a response without the field it is an index into \<open>undefined\<close> and throws (V8's message);
  on an empty array it is \<open>undefined\<close>.
\<close>

definition index_of_undefined :: thrown where
  "index_of_undefined = ErrorObj (lit ''Cannot read properties of undefined (reading '0')'')"

definition first_embedding :: "EmbeddingResponse \<Rightarrow> thrown + real list option" where
  "first_embedding embedding =
     (case embeddings embedding of
        None \<Rightarrow> Inl index_of_undefined
      | Some [] \<Rightarrow> Inr None
      | Some (v # vs) \<Rightarrow> Inr (Some v))"

definition searchQdrant ::
  "services \<Rightarrow> EmbeddingResponse \<Rightarrow> jsstring \<Rightarrow> thrown + VectorStoreSearchResult list" where
  "searchQdrant env embedding workspacePath =
     (case first_embedding embedding of
        Inl e \<Rightarrow> Inl e
      | Inr q \<Rightarrow>
          (let searchRequest =
                 \<lparr>sr_query = q, sr_filter = JUndefined,
                  sr_score_threshold = searchScoreThreshold ROO_SEARCH_CONFIG,
                  sr_limit = searchLimit ROO_SEARCH_CONFIG,
                  sr_hnsw_ef = hnswEf ROO_SEARCH_CONFIG,
                  sr_exact = hnswExact ROO_SEARCH_CONFIG,
                  sr_include = payloadIncludeFields ROO_SEARCH_CONFIG\<rparr>
           in case qdrant_query env (qdrantClientUrl ROO_SEARCH_CONFIG)
                     (getWorkspaceVectorStoreName workspacePath) searchRequest of
                Inl error \<Rightarrow> Inl (ErrorObj (lit ''Search operation failed: '' @ error_message error))
              | Inr points \<Rightarrow> Inr points))"

text \<open>
  The \<open>try\<close> block of \<open>executeSearchPipeline\<close>, and the function with its \<open>catch\<close>. The
  result type keeps a branch for a throw that leaves the function, so that "it never
  throws" is a statement to prove.
\<close>

definition search_attempt :: "services \<Rightarrow> jsstring \<Rightarrow> jsstring \<Rightarrow> thrown + jsstring" where
  "search_attempt env query workspacePath =
     (case createEmbeddings env query of
        Inl e \<Rightarrow> Inl e
      | Inr embeddingResponse \<Rightarrow>
          (case searchQdrant env embeddingResponse workspacePath of
             Inl e \<Rightarrow> Inl e
           | Inr searchResults \<Rightarrow>
               (case transformResults searchResults of
                  Inl e \<Rightarrow> Inl e
                | Inr transformedResults \<Rightarrow> Inr (formatResults transformedResults query))))"

definition executeSearchPipeline :: "services \<Rightarrow> jsstring \<Rightarrow> jsstring \<Rightarrow> thrown + jsstring" where
  "executeSearchPipeline env query workspacePath =
     (case search_attempt env query workspacePath of
        Inl error \<Rightarrow> Inr (lit ''Error executing search: '' @ error_message error)
      | Inr text \<Rightarrow> Inr text)"

text \<open>The tool \<open>roosearch\<close> of the plugin: \<open>directory\<close> comes from the host.\<close>

definition roosearch_execute :: "services \<Rightarrow> jsstring \<Rightarrow> jsstring \<Rightarrow> thrown + jsstring" where
  "roosearch_execute env directory query = executeSearchPipeline env query directory"

section \<open>The pipeline of the fixed-collection tool (unnamed/part_000)\<close>

definition createEmbeddings_fixed :: "services \<Rightarrow> jsstring \<Rightarrow> thrown + EmbeddingResponse" where
  "createEmbeddings_fixed env input =
     (let url = lit ''http://localhost:11434/api/embed'';
          model = lit ''nomic-embed-text'';
          attempt =
            (case fetch env url \<lparr>fi_method = lit ''POST'', fi_content_type = lit ''application/json'',
                                  fi_model = model, fi_input = input\<rparr> of
               Inl e \<Rightarrow> Inl e
             | Inr response \<Rightarrow>
                 if \<not> ok response
                 then Inl (ErrorObj (lit ''Failed to create embeddings: '' @ statusText response))
                 else json response)
      in case attempt of
           Inl error \<Rightarrow> Inl (ErrorObj (lit ''Embedding creation failed: '' @ error_message error))
         | Inr data \<Rightarrow> Inr data)"

definition searchQdrant_fixed ::
  "services \<Rightarrow> EmbeddingResponse \<Rightarrow> thrown + VectorStoreSearchResult list" where
  "searchQdrant_fixed env embedding =
     (case first_embedding embedding of
        Inl e \<Rightarrow> Inl e
      | Inr q \<Rightarrow>
          (let searchRequest =
                 \<lparr>sr_query = q, sr_filter = JUndefined,
                  sr_score_threshold = 0.40,
                  sr_limit = 50,
                  sr_hnsw_ef = 128,
                  sr_exact = False,
                  sr_include = [lit ''filePath'', lit ''codeChunk'', lit ''startLine'',
                                lit ''endLine'', lit ''pathSegments'']\<rparr>
           in case qdrant_query env (lit ''http://localhost:6333'')
                     (lit ''ws-e9be3207f7247f18'') searchRequest of
                Inl error \<Rightarrow> Inl (ErrorObj (lit ''Search operation failed: '' @ error_message error))
              | Inr points \<Rightarrow> Inr points))"

definition search_attempt_fixed :: "services \<Rightarrow> jsstring \<Rightarrow> thrown + jsstring" where
  "search_attempt_fixed env query =
     (case createEmbeddings_fixed env query of
        Inl e \<Rightarrow> Inl e
      | Inr embeddingResponse \<Rightarrow>
          (case searchQdrant_fixed env embeddingResponse of
             Inl e \<Rightarrow> Inl e
           | Inr searchResults \<Rightarrow>
               (case transformResults_fixed searchResults of
                  Inl e \<Rightarrow> Inl e
                | Inr transformedResults \<Rightarrow> Inr (formatResults_fixed transformedResults query))))"

definition executeSearchPipeline_fixed :: "services \<Rightarrow> jsstring \<Rightarrow> thrown + jsstring" where
  "executeSearchPipeline_fixed env query =
     (case search_attempt_fixed env query of
        Inl error \<Rightarrow> Inr (lit ''Error executing search: '' @ error_message error)
      | Inr text \<Rightarrow> Inr text)"

definition tool_execute_fixed :: "services \<Rightarrow> jsstring \<Rightarrow> thrown + jsstring" where
  "tool_execute_fixed env query = executeSearchPipeline_fixed env query"

section \<open>Predicates of the specification\<close>

text \<open>
  The specification's words for a point that \<open>filterValid\<close> keeps: the payload is present
  and \<open>filePath\<close>, \<open>startLine\<close>, \<open>endLine\<close> and \<open>codeChunk\<close> are all there and truthy (a
  non-empty string, a number other than 0).
\<close>

definition truthy_string :: "jsstring option \<Rightarrow> bool" where
  "truthy_string f = (case f of None \<Rightarrow> False | Some s \<Rightarrow> s \<noteq> [])"

definition truthy_number :: "int option \<Rightarrow> bool" where
  "truthy_number f = (case f of None \<Rightarrow> False | Some n \<Rightarrow> n \<noteq> 0)"

definition spec_valid_point :: "VectorStoreSearchResult \<Rightarrow> bool" where
  "spec_valid_point pt =
     (case payload pt of
        PayloadObj p \<Rightarrow>
          truthy_string (filePath p) \<and> truthy_number (startLine p) \<and>
          truthy_number (endLine p) \<and> truthy_string (codeChunk p)
      | _ \<Rightarrow> False)"

text \<open>A string of whitespace only, and a string with no whitespace at either end.\<close>

definition only_whitespace :: "jsstring \<Rightarrow> bool" where
  "only_whitespace s = list_all is_js_whitespace s"

definition no_outer_whitespace :: "jsstring \<Rightarrow> bool" where
  "no_outer_whitespace s =
     (s = [] \<or> (\<not> is_js_whitespace (hd s) \<and> \<not> is_js_whitespace (last s)))"

text \<open>A lowercase hexadecimal digit.\<close>

definition is_lower_hex :: "16 word \<Rightarrow> bool" where
  "is_lower_hex c = (c \<in> set (lit ''0123456789abcdef''))"

section \<open>Literals\<close>

lemma lit_append: "lit (a @ b) = lit a @ lit b"
  by (simp add: lit_def)

section \<open>The empty report\<close>

text \<open>
  C6: for every query \<open>q\<close>, formatting an empty result sequence gives exactly \<open>Query: "q"\<close>,
  two line feeds and \<open>No results found.\<close>, in both source files; for the query \<open>x\<close> that is
  the string \<open>Query: "x"\<newline>\<newline>No results found.\<close>
\<close>

theorem formatResults_empty:
  \<open>formatResults [] q = lit ''Query: "'' @ q @ lit ''"\<newline>\<newline>No results found.''
   \<and> formatResults_fixed [] q = lit ''Query: "'' @ q @ lit ''"\<newline>\<newline>No results found.''
   \<and> formatResults [] (lit ''x'') = lit ''Query: "x"\<newline>\<newline>No results found.''\<close>
  by (simp add: formatResults_def formatResults_fixed_def lit_def)

section \<open>The validity filter\<close>

lemma truthy_get_str: "truthy (get_str f) = truthy_string f"
  by (simp add: get_str_def truthy_string_def split: option.splits)

lemma truthy_get_num: "truthy (get_num f) = truthy_number f"
  by (simp add: get_num_def truthy_number_def split: option.splits)

lemma truthy_js_and: "truthy (js_and a b) = (truthy a \<and> truthy b)"
  by (simp add: js_and_def)

lemma truthy_string_present: "truthy_string f \<Longrightarrow> f \<noteq> None"
  by (cases f) (auto simp: truthy_string_def)

lemma truthy_isValid: "truthy (isValid pt) = spec_valid_point pt"
  by (cases "payload pt")
     (auto simp: isValid_def spec_valid_point_def truthy_js_and truthy_get_str truthy_get_num
           dest: truthy_string_present)

text \<open>
  C3: \<open>filterValidResults\<close> keeps exactly the points whose payload is present and whose
  \<open>filePath\<close>, \<open>startLine\<close>, \<open>endLine\<close> and \<open>codeChunk\<close> are all truthy; a point with one of
  them missing or falsy (a line number 0, an empty string) is dropped. Both source files.
\<close>

theorem filterValid_keeps_exactly_valid:
  "filterValidResults points = filter spec_valid_point points
   \<and> filterValidResults_fixed points = filter spec_valid_point points
   \<and> (pt \<in> set (filterValidResults points) \<longleftrightarrow> pt \<in> set points \<and> spec_valid_point pt)"
  by (auto simp: filterValidResults_def filterValidResults_fixed_def truthy_isValid
        simp flip: isValid_def)


theorem filterValid_keeps_exactly_valid_witness:
  "filterValidResults
     [\<lparr>point_id = IdNumber 1, score = 0.9, payload = PayloadObj
         \<lparr>filePath = Some (lit ''a.ts''), codeChunk = Some (lit ''x''), startLine = Some 1, endLine = Some 2\<rparr>\<rparr>,
      \<lparr>point_id = IdNumber 2, score = 0.8, payload = PayloadObj
         \<lparr>filePath = Some (lit ''a.ts''), codeChunk = Some (lit ''x''), startLine = Some 0, endLine = Some 2\<rparr>\<rparr>,
      \<lparr>point_id = IdNumber 3, score = 0.8, payload = PayloadObj
         \<lparr>filePath = Some (lit ''a.ts''), codeChunk = Some (lit ''x''), startLine = Some 1, endLine = Some 0\<rparr>\<rparr>,
      \<lparr>point_id = IdNumber 4, score = 0.8, payload = PayloadObj
         \<lparr>filePath = Some [], codeChunk = Some (lit ''x''), startLine = Some 1, endLine = Some 2\<rparr>\<rparr>,
      \<lparr>point_id = IdNumber 5, score = 0.8, payload = PayloadObj
         \<lparr>filePath = Some (lit ''a.ts''), codeChunk = Some [], startLine = Some 1, endLine = Some 2\<rparr>\<rparr>,
      \<lparr>point_id = IdNumber 6, score = 0.8, payload = PayloadObj
         \<lparr>filePath = Some (lit ''a.ts''), codeChunk = None, startLine = Some 1, endLine = Some 2\<rparr>\<rparr>,
      \<lparr>point_id = IdNumber 7, score = 0.8, payload = PayloadNull\<rparr>,
      \<lparr>point_id = IdNumber 8, score = 0.8, payload = PayloadUndefined\<rparr>]
   = [\<lparr>point_id = IdNumber 1, score = 0.9, payload = PayloadObj
         \<lparr>filePath = Some (lit ''a.ts''), codeChunk = Some (lit ''x''), startLine = Some 1, endLine = Some 2\<rparr>\<rparr>]"
  by (simp add: filterValid_keeps_exactly_valid [THEN conjunct1], simp add: lit_def,
      simp add: spec_valid_point_def truthy_string_def truthy_number_def)

section \<open>Trimming and the normalized result\<close>

lemma trim_decompose:
  "c = takeWhile is_js_whitespace c @ trim c @
       rev (takeWhile is_js_whitespace (rev (dropWhile is_js_whitespace c)))"
proof -
  let ?d = "dropWhile is_js_whitespace c"
  have "rev ?d = takeWhile is_js_whitespace (rev ?d) @ dropWhile is_js_whitespace (rev ?d)"
    by simp
  then have "?d = rev (dropWhile is_js_whitespace (rev ?d)) @ rev (takeWhile is_js_whitespace (rev ?d))"
    by (metis rev_append rev_rev_ident)
  then have "?d = trim c @ rev (takeWhile is_js_whitespace (rev ?d))"
    by (simp add: trim_def)
  moreover have "c = takeWhile is_js_whitespace c @ ?d"
    by simp
  ultimately show ?thesis
    by metis
qed

lemma trim_last: "trim c \<noteq> [] \<Longrightarrow> \<not> is_js_whitespace (last (trim c))"
proof -
  assume ne: "trim c \<noteq> []"
  let ?e = "dropWhile is_js_whitespace (rev (dropWhile is_js_whitespace c))"
  from ne have "?e \<noteq> []" by (simp add: trim_def)
  then have "\<not> is_js_whitespace (hd ?e)" by (rule hd_dropWhile)
  moreover have "last (trim c) = hd ?e"
    using \<open>?e \<noteq> []\<close> by (simp add: trim_def last_rev)
  ultimately show ?thesis by simp
qed

lemma last_dropWhile_nonempty: "dropWhile P xs \<noteq> [] \<Longrightarrow> last (dropWhile P xs) = last xs"
  by (induction xs) (auto split: if_splits)

lemma trim_hd: "trim c \<noteq> [] \<Longrightarrow> \<not> is_js_whitespace (hd (trim c))"
proof -
  assume ne: "trim c \<noteq> []"
  let ?d = "dropWhile is_js_whitespace c"
  let ?e = "dropWhile is_js_whitespace (rev ?d)"
  from ne have e: "?e \<noteq> []" by (simp add: trim_def)
  have d: "?d \<noteq> []"
  proof
    assume "?d = []"
    then have "?e = []" by (simp only: rev.simps dropWhile.simps)
    with e show False by simp
  qed
  have "hd (trim c) = last ?e"
    using e by (simp add: trim_def hd_rev)
  also have "\<dots> = last (rev ?d)"
    using e by (rule last_dropWhile_nonempty)
  also have "\<dots> = hd ?d"
    using d by (simp add: last_rev)
  finally show ?thesis
    using hd_dropWhile [OF d] by simp
qed

lemma takeWhile_all: "list_all P (takeWhile P xs)"
  by (induction xs) auto

lemma trim_no_outer_whitespace: "no_outer_whitespace (trim c)"
  using trim_hd trim_last by (auto simp: no_outer_whitespace_def)

lemma trim_strips: "\<exists>l r. c = l @ trim c @ r \<and> only_whitespace l \<and> only_whitespace r"
proof -
  have "only_whitespace (takeWhile is_js_whitespace c)"
    by (simp add: only_whitespace_def takeWhile_all)
  moreover have "only_whitespace (rev (takeWhile is_js_whitespace (rev (dropWhile is_js_whitespace c))))"
    by (simp add: only_whitespace_def takeWhile_all)
  ultimately show ?thesis
    using trim_decompose by blast
qed

text \<open>
  C5, as amended: for every raw point whose payload is present and has both the key
  \<open>filePath\<close> and a \<open>codeChunk\<close> string, \<open>transformSearchResult\<close> returns a normalized result
  whose \<open>filePath\<close>, \<open>score\<close>, \<open>startLine\<close> and \<open>endLine\<close> are copied as they are and whose
  \<open>codeChunk\<close> is the payload's with the whitespace at both ends stripped, so it neither
  starts nor ends with whitespace.
\<close>

theorem transformSearchResult_copies_and_trims:
  assumes "payload pt = PayloadObj p" and "filePath p = Some fp" and "codeChunk p = Some c"
  shows "transformSearchResult pt =
           Inr (Some \<lparr>r_filePath = fp, r_score = score pt, r_startLine = startLine p,
                       r_endLine = endLine p, r_codeChunk = trim c\<rparr>)
         \<and> no_outer_whitespace (trim c)
         \<and> (\<exists>l t. c = l @ trim c @ t \<and> only_whitespace l \<and> only_whitespace t)"
  using assms trim_strips [of c]
  by (simp add: transformSearchResult_def trim_no_outer_whitespace)

theorem transformSearchResult_copies_and_trims_witness:
  "transformSearchResult
     \<lparr>point_id = IdNumber 7, score = 0.8,
      payload = PayloadObj \<lparr>filePath = Some (lit ''a.ts''), codeChunk = Some (lit ''  foo()  ''),
                            startLine = Some 10, endLine = Some 20\<rparr>\<rparr>
   = Inr (Some \<lparr>r_filePath = lit ''a.ts'', r_score = 0.8, r_startLine = Some 10,
                 r_endLine = Some 20, r_codeChunk = lit ''foo()''\<rparr>)
   \<and> no_outer_whitespace (lit ''foo()'')"
proof -
  let ?p = "\<lparr>filePath = Some (lit ''a.ts''), codeChunk = Some (lit ''  foo()  ''),
             startLine = Some 10, endLine = Some (20::int)\<rparr>"
  let ?pt = "\<lparr>point_id = IdNumber 7, score = 0.8, payload = PayloadObj ?p\<rparr>"
  have t: "trim (lit ''  foo()  '') = lit ''foo()''"
    by (simp add: lit_def, simp add: trim_def is_js_whitespace_def)
  have p: "payload ?pt = PayloadObj ?p" "filePath ?p = Some (lit ''a.ts'')"
      "codeChunk ?p = Some (lit ''  foo()  '')"
    by simp_all
  note w = transformSearchResult_copies_and_trims [OF p]
  from w [THEN conjunct1] w [THEN conjunct2, THEN conjunct1] show ?thesis
    by (simp only: t VectorStoreSearchResult.simps Payload.simps)
qed

text \<open>
  C5 as stated asks only for the payload and its \<open>filePath\<close>. On a payload that has
  \<open>filePath\<close> and no \<open>codeChunk\<close> the function does not return: \<open>trim\<close> is read on
  \<open>undefined\<close> and a \<open>TypeError\<close> is thrown.
\<close>

theorem transformSearchResult_throws_without_codeChunk:
  "transformSearchResult
     \<lparr>point_id = IdNumber 7, score = 0.8,
      payload = PayloadObj \<lparr>filePath = Some (lit ''a.ts''), codeChunk = None,
                            startLine = Some 10, endLine = Some 20\<rparr>\<rparr>
   = Inl trim_of_undefined"
  by (simp add: transformSearchResult_def)


section \<open>Transforming the valid points\<close>

lemma valid_point_transforms:
  assumes "spec_valid_point pt"
  shows "\<exists>r. transformSearchResult pt = Inr (Some r) \<and> r_score r = score pt"
proof -
  from assms obtain p where p: "payload pt = PayloadObj p"
      and f: "truthy_string (filePath p)" and c: "truthy_string (codeChunk p)"
    by (auto simp: spec_valid_point_def split: payload_slot.splits)
  from f obtain fp where "filePath p = Some fp"
    by (cases "filePath p") (auto simp: truthy_string_def)
  moreover from c obtain ch where "codeChunk p = Some ch"
    by (cases "codeChunk p") (auto simp: truthy_string_def)
  ultimately show ?thesis
    using p by (simp add: transformSearchResult_def)
qed

lemma map_throwing_all_present:
  assumes "\<And>x. x \<in> set xs \<Longrightarrow> \<exists>r. f x = Inr (Some r) \<and> g r = h x"
  shows "\<exists>rs. map_throwing f xs = Inr (map Some rs)
            \<and> list_all2 (\<lambda>x r. f x = Inr (Some r)) xs rs \<and> map g rs = map h xs"
  using assms
proof (induction xs)
  case Nil
  then show ?case by simp
next
  case (Cons x xs)
  then obtain rs where rs: "map_throwing f xs = Inr (map Some rs)"
      "list_all2 (\<lambda>x r. f x = Inr (Some r)) xs rs" "map g rs = map h xs"
    by auto
  from Cons.prems obtain r where r: "f x = Inr (Some r)" "g r = h x"
    by auto
  have "map_throwing f (x # xs) = Inr (map Some (r # rs))"
    using r rs by simp
  moreover have "list_all2 (\<lambda>x r. f x = Inr (Some r)) (x # xs) (r # rs)"
    using r rs by simp
  moreover have "map g (r # rs) = map h (x # xs)"
    using r rs by simp
  ultimately show ?case by blast
qed

lemma drop_nulls_map_Some: "drop_nulls (map Some rs) = rs"
  by (induction rs) auto

lemma filtered_points_valid: "pt \<in> set (filterValidResults points) \<Longrightarrow> spec_valid_point pt"
  by (simp add: filterValidResults_def truthy_isValid)

text \<open>
  C9: every point that \<open>filterValidResults\<close> keeps is mapped by \<open>transformSearchResult\<close> to a
  result, never to \<open>null\<close> (and never to a throw). So \<open>transformResults\<close> returns, and what it
  returns is the kept points mapped one by one, in their order: nothing is removed by the
  last filter, the length is the number of valid points, and the scores come in source order.
\<close>

theorem transformResults_maps_every_valid_point:
  "(pt \<in> set (filterValidResults points) \<longrightarrow> (\<exists>r. transformSearchResult pt = Inr (Some r)))
   \<and> (\<exists>rs. transformResults points = Inr rs
          \<and> list_all2 (\<lambda>pt r. transformSearchResult pt = Inr (Some r)) (filterValidResults points) rs
          \<and> length rs = length (filterValidResults points)
          \<and> map r_score rs = map score (filterValidResults points))"
proof
  show "pt \<in> set (filterValidResults points) \<longrightarrow> (\<exists>r. transformSearchResult pt = Inr (Some r))"
    using filtered_points_valid valid_point_transforms by blast
next
  have "\<And>x. x \<in> set (filterValidResults points)
          \<Longrightarrow> \<exists>r. transformSearchResult x = Inr (Some r) \<and> r_score r = score x"
    using filtered_points_valid valid_point_transforms by blast
  from map_throwing_all_present [of "filterValidResults points" transformSearchResult r_score score, OF this]
  obtain rs where rs: "map_throwing transformSearchResult (filterValidResults points) = Inr (map Some rs)"
      "list_all2 (\<lambda>x r. transformSearchResult x = Inr (Some r)) (filterValidResults points) rs"
      "map r_score rs = map score (filterValidResults points)"
    by blast
  have "transformResults points = Inr rs"
    using rs(1) by (simp add: transformResults_def drop_nulls_map_Some)
  moreover have "length rs = length (filterValidResults points)"
    using rs(2) by (simp add: list_all2_lengthD)
  ultimately show "\<exists>rs. transformResults points = Inr rs
          \<and> list_all2 (\<lambda>pt r. transformSearchResult pt = Inr (Some r)) (filterValidResults points) rs
          \<and> length rs = length (filterValidResults points)
          \<and> map r_score rs = map score (filterValidResults points)"
    using rs by blast
qed

theorem transformResults_maps_every_valid_point_witness:
  "\<lparr>point_id = IdNumber 1, score = 0.9, payload = PayloadObj
       \<lparr>filePath = Some (lit ''a.ts''), codeChunk = Some (lit ''  foo()  ''),
        startLine = Some 10, endLine = Some 20\<rparr>\<rparr>
     \<in> set (filterValidResults
         [\<lparr>point_id = IdNumber 1, score = 0.9, payload = PayloadObj
            \<lparr>filePath = Some (lit ''a.ts''), codeChunk = Some (lit ''  foo()  ''),
             startLine = Some 10, endLine = Some 20\<rparr>\<rparr>,
          \<lparr>point_id = IdNumber 2, score = 0.7, payload = PayloadObj
            \<lparr>filePath = Some (lit ''b.ts''), codeChunk = None,
             startLine = Some 3, endLine = Some 4\<rparr>\<rparr>,
          \<lparr>point_id = IdNumber 3, score = 0.3, payload = PayloadObj
            \<lparr>filePath = Some (lit ''c.ts''), codeChunk = Some (lit ''bar''),
             startLine = Some 1, endLine = Some 2\<rparr>\<rparr>])
   \<and> transformResults
         [\<lparr>point_id = IdNumber 1, score = 0.9, payload = PayloadObj
            \<lparr>filePath = Some (lit ''a.ts''), codeChunk = Some (lit ''  foo()  ''),
             startLine = Some 10, endLine = Some 20\<rparr>\<rparr>,
          \<lparr>point_id = IdNumber 2, score = 0.7, payload = PayloadObj
            \<lparr>filePath = Some (lit ''b.ts''), codeChunk = None,
             startLine = Some 3, endLine = Some 4\<rparr>\<rparr>,
          \<lparr>point_id = IdNumber 3, score = 0.3, payload = PayloadObj
            \<lparr>filePath = Some (lit ''c.ts''), codeChunk = Some (lit ''bar''),
             startLine = Some 1, endLine = Some 2\<rparr>\<rparr>]
       = Inr [\<lparr>r_filePath = lit ''a.ts'', r_score = 0.9, r_startLine = Some 10,
               r_endLine = Some 20, r_codeChunk = lit ''foo()''\<rparr>,
              \<lparr>r_filePath = lit ''c.ts'', r_score = 0.3, r_startLine = Some 1,
               r_endLine = Some 2, r_codeChunk = lit ''bar''\<rparr>]"
proof -
  let ?pa = "\<lparr>point_id = IdNumber 1, score = 0.9, payload = PayloadObj
            \<lparr>filePath = Some (lit ''a.ts''), codeChunk = Some (lit ''  foo()  ''),
             startLine = Some 10, endLine = Some 20\<rparr>\<rparr>"
  let ?pb = "\<lparr>point_id = IdNumber 2, score = 0.7, payload = PayloadObj
            \<lparr>filePath = Some (lit ''b.ts''), codeChunk = None,
             startLine = Some 3, endLine = Some 4\<rparr>\<rparr>"
  let ?pc = "\<lparr>point_id = IdNumber 3, score = 0.3, payload = PayloadObj
            \<lparr>filePath = Some (lit ''c.ts''), codeChunk = Some (lit ''bar''),
             startLine = Some 1, endLine = Some 2\<rparr>\<rparr>"
  let ?ra = "\<lparr>r_filePath = lit ''a.ts'', r_score = 0.9, r_startLine = Some 10,
               r_endLine = Some 20, r_codeChunk = lit ''foo()''\<rparr>"
  let ?rc = "\<lparr>r_filePath = lit ''c.ts'', r_score = 0.3, r_startLine = Some 1,
               r_endLine = Some 2, r_codeChunk = lit ''bar''\<rparr>"
  have kept: "filterValidResults [?pa, ?pb, ?pc] = [?pa, ?pc]"
    by (simp add: filterValidResults_def truthy_isValid, simp add: lit_def,
        simp add: spec_valid_point_def truthy_string_def truthy_number_def)
  have tr: "trim (lit ''  foo()  '') = lit ''foo()''" "trim (lit ''bar'') = lit ''bar''"
    by (simp_all add: lit_def, simp_all add: trim_def is_js_whitespace_def)
  have ta: "transformSearchResult ?pa = Inr (Some ?ra)"
    by (simp add: transformSearchResult_def tr)
  have tc: "transformSearchResult ?pc = Inr (Some ?rc)"
    by (simp add: transformSearchResult_def tr)
  from transformResults_maps_every_valid_point [of ?pa "[?pa, ?pb, ?pc]", THEN conjunct2]
  obtain rs where rs: "transformResults [?pa, ?pb, ?pc] = Inr rs"
      "list_all2 (\<lambda>pt r. transformSearchResult pt = Inr (Some r)) [?pa, ?pc] rs"
    unfolding kept by blast
  from rs(2) have "rs = [?ra, ?rc]"
    by (auto simp: list_all2_Cons1 ta tc)
  with rs(1) kept show ?thesis
    by simp
qed

section \<open>The order of the rendered blocks\<close>

lemma mset_sort_insert: "mset (sort_insert cmp x ys) = add_mset x (mset ys)"
  by (induction ys) auto

lemma mset_js_sort: "mset (js_sort cmp xs) = mset xs"
  by (induction xs) (auto simp: mset_sort_insert)

lemma set_sort_insert: "set (sort_insert cmp x ys) = insert x (set ys)"
  by (induction ys) auto

lemma sorted_sort_insert:
  "sorted_wrt (\<lambda>a b. r_score b \<le> r_score a) ys
   \<Longrightarrow> sorted_wrt (\<lambda>a b. r_score b \<le> r_score a) (sort_insert by_score_desc x ys)"
  by (induction ys) (auto simp: set_sort_insert by_score_desc_def)

lemma sorted_sortedResults: "sorted_wrt (\<lambda>a b. r_score b \<le> r_score a) (sortedResults rs)"
  unfolding sortedResults_def by (induction rs) (auto simp: sorted_sort_insert)

lemma filter_sort_insert:
  "filter (\<lambda>r. r_score r = k) (sort_insert by_score_desc x ys) =
     (if r_score x = k then x # filter (\<lambda>r. r_score r = k) ys else filter (\<lambda>r. r_score r = k) ys)"
  by (induction ys) (auto simp: by_score_desc_def)

lemma stable_sortedResults:
  "filter (\<lambda>r. r_score r = k) (sortedResults rs) = filter (\<lambda>r. r_score r = k) rs"
  unfolding sortedResults_def by (induction rs) (auto simp: filter_sort_insert)

lemma strict_of_distinct:
  "sorted_wrt (\<lambda>a b. f b \<le> (f a :: real)) xs \<Longrightarrow> distinct (map f xs)
   \<Longrightarrow> sorted_wrt (\<lambda>a b. f b < f a) xs"
proof (induction xs)
  case Nil
  then show ?case by simp
next
  case (Cons x xs)
  have "f y < f x" if "y \<in> set xs" for y
  proof -
    from that Cons.prems have "f y \<le> f x"
      by simp
    moreover from that Cons.prems have "f y \<noteq> f x"
      by (metis distinct.simps(2) image_eqI list.simps(9) set_map)
    ultimately show ?thesis by simp
  qed
  with Cons show ?case by simp
qed

lemma distinct_scores_sortedResults:
  "distinct (map r_score rs) \<Longrightarrow> distinct (map r_score (sortedResults rs))"
proof -
  assume d: "distinct (map r_score rs)"
  have "mset (map r_score (sortedResults rs)) = mset (map r_score rs)"
    by (simp add: sortedResults_def mset_js_sort)
  then show ?thesis
    using d by (metis mset_eq_imp_distinct_iff)
qed

text \<open>
  C4, as amended: for a non-empty sequence of results the report is the preamble, the blocks
  of the results in sorted order joined by a blank line, and the trailer, where the sorted
  order is by score, never a lower score before a higher one; it is a rearrangement of the
  input (a sorted copy), results of equal score keep their input order, and when all scores
  differ the order is strictly descending.
\<close>

theorem formatResults_blocks_descending:
  assumes "results \<noteq> []"
  shows \<open>formatResults results query =
           lit ''Query: "'' @ query @ lit ''"\<newline>\<newline>Found '' @ digits_of (length results) @
           lit '' result'' @ plural_s (length results) @ lit '':\<newline>\<newline>'' @
           join (lit ''\<newline>\<newline>'') (map formatSearchResult (sortedResults results)) @
           lit ''\<newline>\<newline>---\<newline>Search completed with '' @ digits_of (length results) @
           lit '' result'' @ plural_s (length results) @ lit ''.''
         \<and> sorted_wrt (\<lambda>a b. r_score b \<le> r_score a) (sortedResults results)
         \<and> mset (sortedResults results) = mset results
         \<and> (\<forall>k. filter (\<lambda>r. r_score r = k) (sortedResults results) = filter (\<lambda>r. r_score r = k) results)
         \<and> (distinct (map r_score results)
              \<longrightarrow> sorted_wrt (\<lambda>a b. r_score b < r_score a) (sortedResults results))\<close>
proof -
  have "sorted_wrt (\<lambda>a b. r_score b < r_score a) (sortedResults results)"
    if "distinct (map r_score results)"
    using that sorted_sortedResults distinct_scores_sortedResults strict_of_distinct by blast
  moreover have "mset (sortedResults results) = mset results"
    by (simp add: sortedResults_def mset_js_sort)
  ultimately show ?thesis
    using assms by (simp add: formatResults_def sorted_sortedResults stable_sortedResults)
qed

theorem formatResults_blocks_descending_witness:
  \<open>formatResults
      [\<lparr>r_filePath = lit ''a.ts'', r_score = 0.9, r_startLine = Some 1, r_endLine = Some 2,
        r_codeChunk = lit ''x''\<rparr>,
       \<lparr>r_filePath = lit ''b.ts'', r_score = 0.3, r_startLine = Some 3, r_endLine = Some 4,
        r_codeChunk = lit ''y''\<rparr>,
       \<lparr>r_filePath = lit ''c.ts'', r_score = 0.7, r_startLine = Some 5, r_endLine = Some 6,
        r_codeChunk = lit ''z''\<rparr>] (lit ''q'')
    = lit ''Query: "q"\<newline>\<newline>Found 3 results:\<newline>\<newline>File: a.ts\<newline>Score: 0.900\<newline>Lines: 1-2\<newline>Code:\<newline>```\<newline>x\<newline>```\<newline>\<newline>\<newline>File: c.ts\<newline>Score: 0.700\<newline>Lines: 5-6\<newline>Code:\<newline>```\<newline>z\<newline>```\<newline>\<newline>\<newline>File: b.ts\<newline>Score: 0.300\<newline>Lines: 3-4\<newline>Code:\<newline>```\<newline>y\<newline>```\<newline>\<newline>\<newline>---\<newline>Search completed with 3 results.''\<close>
proof -
  let ?a = "\<lparr>r_filePath = lit ''a.ts'', r_score = 0.9, r_startLine = Some 1, r_endLine = Some 2,
        r_codeChunk = lit ''x''\<rparr>"
  let ?b = "\<lparr>r_filePath = lit ''b.ts'', r_score = 0.3, r_startLine = Some 3, r_endLine = Some 4,
        r_codeChunk = lit ''y''\<rparr>"
  let ?c = "\<lparr>r_filePath = lit ''c.ts'', r_score = 0.7, r_startLine = Some 5, r_endLine = Some 6,
        r_codeChunk = lit ''z''\<rparr>"
  have s: "sortedResults [?a, ?b, ?c] = [?a, ?c, ?b]"
    by (simp add: sortedResults_def by_score_desc_def)
  have d: "digits_of 900 = lit ''900''" "digits_of 700 = lit ''700''" "digits_of 300 = lit ''300''"
      "digits_of 3 = lit ''3''"
    by (simp_all add: digits_of.simps digit_char_def lit_def)
  have t: "toFixed3 0.9 = lit ''0.900''" "toFixed3 0.7 = lit ''0.700''" "toFixed3 0.3 = lit ''0.300''"
    by (simp_all add: toFixed3_def Let_def pad_zeros_def d, simp_all add: lit_def digit_char_def)
  have l: "line_to_string (Some 1) = lit ''1''" "line_to_string (Some 2) = lit ''2''"
      "line_to_string (Some 3) = lit ''3''" "line_to_string (Some 4) = lit ''4''"
      "line_to_string (Some 5) = lit ''5''" "line_to_string (Some 6) = lit ''6''"
    by (simp_all add: line_to_string_def int_to_string_def digits_of.simps digit_char_def lit_def)
  have n: "digits_of (Suc (Suc (Suc 0))) = lit ''3''"
    using d(4) by (simp only: numeral_3_eq_3)
  have ne: "[?a, ?b, ?c] \<noteq> []"
    by simp
  note f = formatResults_blocks_descending [OF ne, of "lit ''q''", THEN conjunct1]
  show ?thesis
    unfolding f by (simp add: s t l n formatSearchResult_def plural_s_def flip: lit_append)
qed

text \<open>
  C4 as stated has the blocks in strictly descending order for every non-empty input. Two
  results of equal score are both rendered, one after the other.
\<close>

theorem formatResults_ties_not_strict:
  "\<not> sorted_wrt (\<lambda>a b. r_score b < r_score a)
       (sortedResults
          [\<lparr>r_filePath = lit ''a.ts'', r_score = 0.5, r_startLine = Some 1, r_endLine = Some 2,
            r_codeChunk = lit ''x''\<rparr>,
           \<lparr>r_filePath = lit ''b.ts'', r_score = 0.5, r_startLine = Some 3, r_endLine = Some 4,
            r_codeChunk = lit ''y''\<rparr>])"
  by (simp add: sortedResults_def by_score_desc_def)


section \<open>The query vector\<close>

lemma createEmbeddings_success:
  assumes "fetch env (lit ''http://localhost:11434/api/embed'')
             \<lparr>fi_method = lit ''POST'', fi_content_type = lit ''application/json'',
              fi_model = lit ''nomic-embed-text'', fi_input = input\<rparr> = Inr response"
    and "ok response" and "json response = Inr data"
  shows "createEmbeddings env input = Inr data"
  using assms by (simp add: createEmbeddings_def ROO_SEARCH_CONFIG_def)

lemma createEmbeddings_http_failure:
  assumes "fetch env (lit ''http://localhost:11434/api/embed'')
             \<lparr>fi_method = lit ''POST'', fi_content_type = lit ''application/json'',
              fi_model = lit ''nomic-embed-text'', fi_input = input\<rparr> = Inr response"
    and "\<not> ok response"
  shows "createEmbeddings env input =
           Inl (ErrorObj (lit ''Embedding creation failed: Failed to create embeddings: '' @
                          statusText response))"
  using assms by (simp add: createEmbeddings_def ROO_SEARCH_CONFIG_def error_message_def lit_def)

lemma searchQdrant_sends_first:
  assumes "embeddings data = Some vs"
  shows "searchQdrant env data workspacePath =
           (case qdrant_query env (lit ''http://localhost:6333'')
                   (getWorkspaceVectorStoreName workspacePath)
                   \<lparr>sr_query = (case vs of [] \<Rightarrow> None | v # rest \<Rightarrow> Some v),
                    sr_filter = JUndefined, sr_score_threshold = 0.40,
                    sr_limit = 50, sr_hnsw_ef = 128, sr_exact = False,
                    sr_include = [lit ''filePath'', lit ''codeChunk'', lit ''startLine'',
                                  lit ''endLine'', lit ''pathSegments'']\<rparr> of
              Inl error \<Rightarrow> Inl (ErrorObj (lit ''Search operation failed: '' @ error_message error))
            | Inr points \<Rightarrow> Inr points)"
  using assms
  by (cases vs) (simp_all add: searchQdrant_def first_embedding_def ROO_SEARCH_CONFIG_def)

text \<open>
  C7, as amended: of a 2xx response \<open>createEmbeddings\<close> returns the whole body, not a vector.
  The pipeline then sends \<open>embeddings[0]\<close> as the query vector of its search request: for
  every body whose \<open>embeddings\<close> field is a non-empty sequence of vectors that is exactly the
  first of them, and for an empty sequence it is \<open>undefined\<close>, the request carries no query
  vector and the search still runs. What the pipeline returns is what the database answers
  to that one request, transformed and formatted.
\<close>

theorem pipeline_query_is_first_embedding:
  assumes "fetch env (lit ''http://localhost:11434/api/embed'')
             \<lparr>fi_method = lit ''POST'', fi_content_type = lit ''application/json'',
              fi_model = lit ''nomic-embed-text'', fi_input = query\<rparr> = Inr response"
    and "ok response" and "json response = Inr data" and "embeddings data = Some vs"
  shows "createEmbeddings env query = Inr data
         \<and> first_embedding data = Inr (case vs of [] \<Rightarrow> None | v # rest \<Rightarrow> Some v)
         \<and> search_attempt env query workspacePath =
             (case qdrant_query env (lit ''http://localhost:6333'')
                     (getWorkspaceVectorStoreName workspacePath)
                     \<lparr>sr_query = (case vs of [] \<Rightarrow> None | v # rest \<Rightarrow> Some v),
                      sr_filter = JUndefined, sr_score_threshold = 0.40,
                      sr_limit = 50, sr_hnsw_ef = 128, sr_exact = False,
                      sr_include = [lit ''filePath'', lit ''codeChunk'', lit ''startLine'',
                                    lit ''endLine'', lit ''pathSegments'']\<rparr> of
                Inl error \<Rightarrow> Inl (ErrorObj (lit ''Search operation failed: '' @ error_message error))
              | Inr points \<Rightarrow>
                  (case transformResults points of
                     Inl e \<Rightarrow> Inl e
                   | Inr results \<Rightarrow> Inr (formatResults results query)))
         \<and> executeSearchPipeline env query workspacePath =
             (case qdrant_query env (lit ''http://localhost:6333'')
                     (getWorkspaceVectorStoreName workspacePath)
                     \<lparr>sr_query = (case vs of [] \<Rightarrow> None | v # rest \<Rightarrow> Some v),
                      sr_filter = JUndefined, sr_score_threshold = 0.40,
                      sr_limit = 50, sr_hnsw_ef = 128, sr_exact = False,
                      sr_include = [lit ''filePath'', lit ''codeChunk'', lit ''startLine'',
                                    lit ''endLine'', lit ''pathSegments'']\<rparr> of
                Inl error \<Rightarrow>
                  Inr (lit ''Error executing search: '' @ lit ''Search operation failed: '' @
                       error_message error)
              | Inr points \<Rightarrow>
                  (case transformResults points of
                     Inl e \<Rightarrow> Inr (lit ''Error executing search: '' @ error_message e)
                   | Inr results \<Rightarrow> Inr (formatResults results query)))"
proof -
  have c: "createEmbeddings env query = Inr data"
    using assms(1-3) by (rule createEmbeddings_success)
  have f: "first_embedding data = Inr (case vs of [] \<Rightarrow> None | v # rest \<Rightarrow> Some v)"
    using assms(4) by (cases vs) (simp_all add: first_embedding_def)
  note s = searchQdrant_sends_first [OF assms(4), of env workspacePath]
  have a: "search_attempt env query workspacePath =
      (case searchQdrant env data workspacePath of
         Inl e \<Rightarrow> Inl e
       | Inr points \<Rightarrow>
           (case transformResults points of
              Inl e \<Rightarrow> Inl e
            | Inr results \<Rightarrow> Inr (formatResults results query)))"
    by (simp add: search_attempt_def c)
  have e: "executeSearchPipeline env query workspacePath =
      (case search_attempt env query workspacePath of
         Inl error \<Rightarrow> Inr (lit ''Error executing search: '' @ error_message error)
       | Inr text \<Rightarrow> Inr text)"
    by (simp add: executeSearchPipeline_def)
  show ?thesis
    unfolding e a s using c f
    by (simp add: error_message_def split: sum.splits)
qed

theorem pipeline_query_is_first_embedding_witness:
  \<open>createEmbeddings
     \<lparr>fetch = (\<lambda>url init. Inr \<lparr>ok = True, statusText = lit ''OK'',
                                   json = Inr \<lparr>embeddings = Some [[0.1, 0.3], [0.7]]\<rparr>\<rparr>),
      qdrant_query = (\<lambda>url collection request.
                        if sr_query request = Some [0.1, 0.3] then Inr [] else Inl NonError)\<rparr>
     (lit ''parse json'')
   = Inr \<lparr>embeddings = Some [[0.1, 0.3], [0.7]]\<rparr>
   \<and> executeSearchPipeline
     \<lparr>fetch = (\<lambda>url init. Inr \<lparr>ok = True, statusText = lit ''OK'',
                                   json = Inr \<lparr>embeddings = Some [[0.1, 0.3], [0.7]]\<rparr>\<rparr>),
      qdrant_query = (\<lambda>url collection request.
                        if sr_query request = Some [0.1, 0.3] then Inr [] else Inl NonError)\<rparr>
     (lit ''parse json'') (lit ''/ws'')
   = Inr (lit ''Query: "parse json"\<newline>\<newline>No results found.'')\<close>
proof -
  let ?data = "\<lparr>embeddings = Some [[0.1, 0.3], [0.7::real]]\<rparr>"
  let ?response = "\<lparr>ok = True, statusText = lit ''OK'', json = Inr ?data\<rparr>"
  let ?env = "\<lparr>fetch = (\<lambda>url init. Inr ?response),
      qdrant_query = (\<lambda>url collection request.
                        if sr_query request = Some [0.1, 0.3] then Inr [] else Inl NonError)\<rparr>"
  have "fetch ?env (lit ''http://localhost:11434/api/embed'')
             \<lparr>fi_method = lit ''POST'', fi_content_type = lit ''application/json'',
              fi_model = lit ''nomic-embed-text'', fi_input = lit ''parse json''\<rparr> = Inr ?response"
    and "ok ?response" and "json ?response = Inr ?data"
    and "embeddings ?data = Some [[0.1, 0.3], [0.7]]"
    by simp_all
  note t = pipeline_query_is_first_embedding [OF this, of "lit ''/ws''"]
  have r: "transformResults [] = Inr []"
    by (simp add: transformResults_def filterValidResults_def)
  from t [THEN conjunct1] t [THEN conjunct2, THEN conjunct2, THEN conjunct2] show ?thesis
    by (simp add: r formatResults_def flip: lit_append)
qed

text \<open>
  C7 as stated has the embedding operation return the first vector of every response whose
  \<open>embeddings\<close> field is a sequence of vectors. For the empty sequence there is no such
  vector: \<open>createEmbeddings\<close> returns the body as it is, \<open>embeddings[0]\<close> is \<open>undefined\<close>, and
  the pipeline queries the database without a vector (the database below answers no other
  request) and reports its answer.
\<close>

theorem empty_embeddings_send_no_vector:
  \<open>createEmbeddings
     \<lparr>fetch = (\<lambda>url init. Inr \<lparr>ok = True, statusText = lit ''OK'',
                                   json = Inr \<lparr>embeddings = Some []\<rparr>\<rparr>),
      qdrant_query = (\<lambda>url collection request.
                        if sr_query request = None then Inr [] else Inl NonError)\<rparr>
     (lit ''parse json'')
   = Inr \<lparr>embeddings = Some []\<rparr>
   \<and> first_embedding \<lparr>embeddings = Some []\<rparr> = Inr None
   \<and> executeSearchPipeline
     \<lparr>fetch = (\<lambda>url init. Inr \<lparr>ok = True, statusText = lit ''OK'',
                                   json = Inr \<lparr>embeddings = Some []\<rparr>\<rparr>),
      qdrant_query = (\<lambda>url collection request.
                        if sr_query request = None then Inr [] else Inl NonError)\<rparr>
     (lit ''parse json'') (lit ''/ws'')
   = Inr (lit ''Query: "parse json"\<newline>\<newline>No results found.'')\<close>
proof -
  let ?data = "\<lparr>embeddings = Some ([] :: real list list)\<rparr>"
  let ?env = "\<lparr>fetch = (\<lambda>url init. Inr \<lparr>ok = True, statusText = lit ''OK'', json = Inr ?data\<rparr>),
      qdrant_query = (\<lambda>url collection request.
                        if sr_query request = None then Inr [] else Inl NonError)\<rparr>"
  have c: "createEmbeddings ?env (lit ''parse json'') = Inr ?data"
    by (simp add: createEmbeddings_def)
  have f: "first_embedding ?data = Inr None"
    by (simp add: first_embedding_def)
  have s: "searchQdrant ?env ?data (lit ''/ws'') = Inr []"
    by (simp add: searchQdrant_def f)
  have r: "transformResults [] = Inr []"
    by (simp add: transformResults_def filterValidResults_def)
  have "executeSearchPipeline ?env (lit ''parse json'') (lit ''/ws'')
      = Inr (formatResults [] (lit ''parse json''))"
    by (simp only: executeSearchPipeline_def search_attempt_def c s r sum.case)
  then show ?thesis
    using c f by (simp add: formatResults_def flip: lit_append)
qed

section \<open>Failures become text\<close>

lemma pipeline_returns: "\<exists>text. executeSearchPipeline env query workspacePath = Inr text"
  by (simp add: executeSearchPipeline_def split: sum.splits)

lemma pipeline_fixed_returns: "\<exists>text. executeSearchPipeline_fixed env query = Inr text"
  by (simp add: executeSearchPipeline_fixed_def split: sum.splits)

lemma pipeline_of_throw:
  "search_attempt env query workspacePath = Inl e
   \<Longrightarrow> executeSearchPipeline env query workspacePath =
         Inr (lit ''Error executing search: '' @ error_message e)"
  by (simp add: executeSearchPipeline_def)

lemma attempt_embedding_throw:
  "createEmbeddings env query = Inl e \<Longrightarrow> search_attempt env query workspacePath = Inl e"
  by (simp add: search_attempt_def)

lemma attempt_search_throw:
  "createEmbeddings env query = Inr emb \<Longrightarrow> searchQdrant env emb workspacePath = Inl e
   \<Longrightarrow> search_attempt env query workspacePath = Inl e"
  by (simp add: search_attempt_def)

text \<open>
  C1: \<open>executeSearchPipeline\<close> never throws: it always returns a string. When a stage
  throws (the embedding call, the vector search or anything after it in the \<open>try\<close> block),
  the string is \<open>Error executing search: \<close> followed by the message of the thrown \<open>Error\<close>, or
  by \<open>Unknown error\<close> when the thrown value is no \<open>Error\<close>. A non-2xx answer of the embedding
  service gives a string that starts with \<open>Error executing search: Embedding creation failed\<close>.
  The pipeline of the second source file always returns a string as well.
\<close>

theorem executeSearchPipeline_never_throws:
  "(\<exists>text. executeSearchPipeline env query workspacePath = Inr text)
   \<and> (search_attempt env query workspacePath = Inl e
        \<longrightarrow> executeSearchPipeline env query workspacePath =
              Inr (lit ''Error executing search: '' @ error_message e))
   \<and> (createEmbeddings env query = Inl e
        \<longrightarrow> executeSearchPipeline env query workspacePath =
              Inr (lit ''Error executing search: '' @ error_message e))
   \<and> (createEmbeddings env query = Inr emb \<and> searchQdrant env emb workspacePath = Inl e
        \<longrightarrow> executeSearchPipeline env query workspacePath =
              Inr (lit ''Error executing search: '' @ error_message e))
   \<and> (fetch env (lit ''http://localhost:11434/api/embed'')
          \<lparr>fi_method = lit ''POST'', fi_content_type = lit ''application/json'',
           fi_model = lit ''nomic-embed-text'', fi_input = query\<rparr> = Inr response
        \<and> \<not> ok response
        \<longrightarrow> executeSearchPipeline env query workspacePath =
              Inr (lit ''Error executing search: Embedding creation failed'' @
                   lit '': Failed to create embeddings: '' @ statusText response))
   \<and> (\<exists>text. executeSearchPipeline_fixed env query = Inr text)"
proof (intro conjI impI)
  show "\<exists>text. executeSearchPipeline env query workspacePath = Inr text"
    by (rule pipeline_returns)
  show "\<exists>text. executeSearchPipeline_fixed env query = Inr text"
    by (rule pipeline_fixed_returns)
next
  assume "search_attempt env query workspacePath = Inl e"
  then show "executeSearchPipeline env query workspacePath =
      Inr (lit ''Error executing search: '' @ error_message e)"
    by (rule pipeline_of_throw)
next
  assume "createEmbeddings env query = Inl e"
  then show "executeSearchPipeline env query workspacePath =
      Inr (lit ''Error executing search: '' @ error_message e)"
    by (intro pipeline_of_throw attempt_embedding_throw)
next
  assume "createEmbeddings env query = Inr emb \<and> searchQdrant env emb workspacePath = Inl e"
  then show "executeSearchPipeline env query workspacePath =
      Inr (lit ''Error executing search: '' @ error_message e)"
    by (intro pipeline_of_throw attempt_search_throw [of env query emb]) simp_all
next
  assume a: "fetch env (lit ''http://localhost:11434/api/embed'')
          \<lparr>fi_method = lit ''POST'', fi_content_type = lit ''application/json'',
           fi_model = lit ''nomic-embed-text'', fi_input = query\<rparr> = Inr response
        \<and> \<not> ok response"
  then have "createEmbeddings env query =
      Inl (ErrorObj (lit ''Embedding creation failed: Failed to create embeddings: '' @
                     statusText response))"
    by (intro createEmbeddings_http_failure) simp_all
  then have "executeSearchPipeline env query workspacePath =
      Inr (lit ''Error executing search: '' @
           error_message (ErrorObj (lit ''Embedding creation failed: Failed to create embeddings: '' @
                     statusText response)))"
    by (intro pipeline_of_throw attempt_embedding_throw)
  then show "executeSearchPipeline env query workspacePath =
      Inr (lit ''Error executing search: Embedding creation failed'' @
           lit '': Failed to create embeddings: '' @ statusText response)"
    by (simp add: error_message_def lit_def)
qed

theorem executeSearchPipeline_never_throws_witness:
  "executeSearchPipeline
     \<lparr>fetch = (\<lambda>url init. Inr \<lparr>ok = False, statusText = lit ''Internal Server Error'',
                                   json = Inl NonError\<rparr>),
      qdrant_query = (\<lambda>url collection request. Inr [])\<rparr>
     (lit ''parse json'') (lit ''/ws'')
   = Inr (lit ''Error executing search: Embedding creation failed: Failed to create embeddings: Internal Server Error'')
   \<and> executeSearchPipeline
     \<lparr>fetch = (\<lambda>url init. Inr \<lparr>ok = True, statusText = lit ''OK'',
                                   json = Inr \<lparr>embeddings = Some [[0.1, 0.3]]\<rparr>\<rparr>),
      qdrant_query = (\<lambda>url collection request. Inl NonError)\<rparr>
     (lit ''parse json'') (lit ''/ws'')
   = Inr (lit ''Error executing search: Search operation failed: Unknown error'')"
proof
  let ?response = "\<lparr>ok = False, statusText = lit ''Internal Server Error'', json = Inl NonError\<rparr>"
  let ?env = "\<lparr>fetch = (\<lambda>url init. Inr ?response), qdrant_query = (\<lambda>url collection request. Inr [])\<rparr>"
  have h: "fetch ?env (lit ''http://localhost:11434/api/embed'')
          \<lparr>fi_method = lit ''POST'', fi_content_type = lit ''application/json'',
           fi_model = lit ''nomic-embed-text'', fi_input = lit ''parse json''\<rparr> = Inr ?response
        \<and> \<not> ok ?response"
    by simp
  note t = executeSearchPipeline_never_throws [of ?env "lit ''parse json''" "lit ''/ws''" _ _ ?response]
  from t [THEN conjunct2, THEN conjunct2, THEN conjunct2, THEN conjunct2, THEN conjunct1, rule_format, OF h]
  show "executeSearchPipeline ?env (lit ''parse json'') (lit ''/ws'')
    = Inr (lit ''Error executing search: Embedding creation failed: Failed to create embeddings: Internal Server Error'')"
    by (simp add: lit_def)
next
  let ?data = "\<lparr>embeddings = Some [[0.1, 0.3::real]]\<rparr>"
  let ?env = "\<lparr>fetch = (\<lambda>url init. Inr \<lparr>ok = True, statusText = lit ''OK'', json = Inr ?data\<rparr>),
      qdrant_query = (\<lambda>url collection request. Inl NonError)\<rparr>"
  let ?e = "ErrorObj (lit ''Search operation failed: Unknown error'')"
  have c: "createEmbeddings ?env (lit ''parse json'') = Inr ?data"
    by (simp add: createEmbeddings_def)
  have s: "searchQdrant ?env ?data (lit ''/ws'') = Inl ?e"
    by (simp add: searchQdrant_def first_embedding_def error_message_def lit_def)
  from c s have h: "createEmbeddings ?env (lit ''parse json'') = Inr ?data
      \<and> searchQdrant ?env ?data (lit ''/ws'') = Inl ?e"
    by (rule conjI)
  note t = executeSearchPipeline_never_throws [of ?env "lit ''parse json''" "lit ''/ws''" ?e ?data]
  from t [THEN conjunct2, THEN conjunct2, THEN conjunct2, THEN conjunct1, rule_format, OF h]
  show "executeSearchPipeline ?env (lit ''parse json'') (lit ''/ws'')
    = Inr (lit ''Error executing search: Search operation failed: Unknown error'')"
    by (simp add: error_message_def lit_def)
qed

section \<open>The two source files agree\<close>

lemma by_score_desc_eq: "by_score_desc = (\<lambda>a b. r_score b - r_score a)"
  by (simp add: fun_eq_iff by_score_desc_def)

lemma filterValidResults_fixed_eq: "filterValidResults_fixed = filterValidResults"
  by (simp add: fun_eq_iff filterValidResults_fixed_def filterValidResults_def isValid_def)

lemma transformSearchResult_fixed_eq: "transformSearchResult_fixed = transformSearchResult"
  by (simp add: fun_eq_iff transformSearchResult_fixed_def transformSearchResult_def)

lemma transformResults_fixed_eq: "transformResults_fixed = transformResults"
  by (simp add: fun_eq_iff transformResults_fixed_def transformResults_def
        filterValidResults_fixed_eq transformSearchResult_fixed_eq)

lemma formatSearchResult_fixed_eq: "formatSearchResult_fixed = formatSearchResult"
  by (simp add: fun_eq_iff formatSearchResult_fixed_def formatSearchResult_def)

lemma formatResults_fixed_eq: "formatResults_fixed = formatResults"
  by (simp add: fun_eq_iff formatResults_fixed_def formatResults_def sortedResults_def
        by_score_desc_eq formatSearchResult_fixed_eq Let_def)

lemma createEmbeddings_fixed_eq: "createEmbeddings_fixed = createEmbeddings"
  by (simp add: fun_eq_iff createEmbeddings_fixed_def createEmbeddings_def ROO_SEARCH_CONFIG_def)

lemma searchQdrant_fixed_eq:
  assumes "qdrant_query env (lit ''http://localhost:6333'') (getWorkspaceVectorStoreName workspacePath)
           = qdrant_query env (lit ''http://localhost:6333'') (lit ''ws-e9be3207f7247f18'')"
  shows "searchQdrant env embedding workspacePath = searchQdrant_fixed env embedding"
  using assms
  by (cases "first_embedding embedding")
     (simp_all add: searchQdrant_def searchQdrant_fixed_def ROO_SEARCH_CONFIG_def)

lemma pipelines_agree:
  assumes "qdrant_query env (lit ''http://localhost:6333'') (getWorkspaceVectorStoreName workspacePath)
           = qdrant_query env (lit ''http://localhost:6333'') (lit ''ws-e9be3207f7247f18'')"
  shows "executeSearchPipeline env query workspacePath = executeSearchPipeline_fixed env query"
  unfolding executeSearchPipeline_def executeSearchPipeline_fixed_def search_attempt_def
    search_attempt_fixed_def createEmbeddings_fixed_eq searchQdrant_fixed_eq [OF assms]
    transformResults_fixed_eq formatResults_fixed_eq
  by (rule refl)

text \<open>
  C10: the functions of the fixed-collection tool (unnamed/part_000) and of the plugin
  (roosearch.ts) give the same output through filter, transform and format, for every
  sequence of raw points and every query, and they send the same embedding request. The two
  pipelines differ only in the collection they query: for a workspace path whose collection
  name is \<open>ws-e9be3207f7247f18\<close> (or, more generally, whose collection the database answers
  for as it does for that one) the plugin's pipeline and tool return what the fixed ones do.
\<close>

theorem fixed_tool_is_special_case:
  "filterValidResults_fixed points = filterValidResults points
   \<and> transformResults_fixed points = transformResults points
   \<and> formatResults_fixed results query = formatResults results query
   \<and> (case transformResults_fixed points of
         Inl e \<Rightarrow> Inl e | Inr rs \<Rightarrow> Inr (formatResults_fixed rs query))
       = (case transformResults points of
            Inl e \<Rightarrow> Inl e | Inr rs \<Rightarrow> Inr (formatResults rs query))
   \<and> createEmbeddings_fixed env query = createEmbeddings env query
   \<and> (getWorkspaceVectorStoreName workspacePath = lit ''ws-e9be3207f7247f18''
        \<or> qdrant_query env (lit ''http://localhost:6333'') (getWorkspaceVectorStoreName workspacePath)
           = qdrant_query env (lit ''http://localhost:6333'') (lit ''ws-e9be3207f7247f18'')
        \<longrightarrow> executeSearchPipeline env query workspacePath = executeSearchPipeline_fixed env query
            \<and> roosearch_execute env workspacePath query = tool_execute_fixed env query)"
proof -
  have "executeSearchPipeline env query workspacePath = executeSearchPipeline_fixed env query"
    if "getWorkspaceVectorStoreName workspacePath = lit ''ws-e9be3207f7247f18''
        \<or> qdrant_query env (lit ''http://localhost:6333'') (getWorkspaceVectorStoreName workspacePath)
           = qdrant_query env (lit ''http://localhost:6333'') (lit ''ws-e9be3207f7247f18'')"
  proof (rule pipelines_agree)
    from that show "qdrant_query env (lit ''http://localhost:6333'') (getWorkspaceVectorStoreName workspacePath)
           = qdrant_query env (lit ''http://localhost:6333'') (lit ''ws-e9be3207f7247f18'')"
      by (elim disjE) simp_all
  qed
  then show ?thesis
    unfolding filterValidResults_fixed_eq transformResults_fixed_eq formatResults_fixed_eq
      createEmbeddings_fixed_eq roosearch_execute_def tool_execute_fixed_def
    by simp
qed

theorem fixed_tool_is_special_case_witness:
  \<open>executeSearchPipeline
     \<lparr>fetch = (\<lambda>url init. Inr \<lparr>ok = True, statusText = lit ''OK'',
                                   json = Inr \<lparr>embeddings = Some [[0.1, 0.2]]\<rparr>\<rparr>),
      qdrant_query = (\<lambda>url collection request.
         Inr [\<lparr>point_id = IdNumber 1, score = 0.8, payload = PayloadObj
                \<lparr>filePath = Some (lit ''a.ts''), codeChunk = Some (lit ''  foo()  ''),
                 startLine = Some 10, endLine = Some 20\<rparr>\<rparr>,
              \<lparr>point_id = IdNumber 2, score = 0.7, payload = PayloadObj
                \<lparr>filePath = Some (lit ''b.ts''), codeChunk = None,
                 startLine = Some 3, endLine = Some 4\<rparr>\<rparr>])\<rparr>
     (lit ''parse json'') (lit ''/ws'')
   = executeSearchPipeline_fixed
     \<lparr>fetch = (\<lambda>url init. Inr \<lparr>ok = True, statusText = lit ''OK'',
                                   json = Inr \<lparr>embeddings = Some [[0.1, 0.2]]\<rparr>\<rparr>),
      qdrant_query = (\<lambda>url collection request.
         Inr [\<lparr>point_id = IdNumber 1, score = 0.8, payload = PayloadObj
                \<lparr>filePath = Some (lit ''a.ts''), codeChunk = Some (lit ''  foo()  ''),
                 startLine = Some 10, endLine = Some 20\<rparr>\<rparr>,
              \<lparr>point_id = IdNumber 2, score = 0.7, payload = PayloadObj
                \<lparr>filePath = Some (lit ''b.ts''), codeChunk = None,
                 startLine = Some 3, endLine = Some 4\<rparr>\<rparr>])\<rparr>
     (lit ''parse json'')
   \<and> executeSearchPipeline_fixed
     \<lparr>fetch = (\<lambda>url init. Inr \<lparr>ok = True, statusText = lit ''OK'',
                                   json = Inr \<lparr>embeddings = Some [[0.1, 0.2]]\<rparr>\<rparr>),
      qdrant_query = (\<lambda>url collection request.
         Inr [\<lparr>point_id = IdNumber 1, score = 0.8, payload = PayloadObj
                \<lparr>filePath = Some (lit ''a.ts''), codeChunk = Some (lit ''  foo()  ''),
                 startLine = Some 10, endLine = Some 20\<rparr>\<rparr>,
              \<lparr>point_id = IdNumber 2, score = 0.7, payload = PayloadObj
                \<lparr>filePath = Some (lit ''b.ts''), codeChunk = None,
                 startLine = Some 3, endLine = Some 4\<rparr>\<rparr>])\<rparr>
     (lit ''parse json'')
   = Inr (lit ''Query: "parse json"\<newline>\<newline>Found 1 result:\<newline>\<newline>File: a.ts\<newline>Score: 0.800\<newline>Lines: 10-20\<newline>Code:\<newline>```\<newline>foo()\<newline>```\<newline>\<newline>\<newline>---\<newline>Search completed with 1 result.'')\<close>
proof -
  let ?data = "\<lparr>embeddings = Some [[0.1, 0.2::real]]\<rparr>"
  let ?pa = "\<lparr>point_id = IdNumber 1, score = 0.8, payload = PayloadObj
                \<lparr>filePath = Some (lit ''a.ts''), codeChunk = Some (lit ''  foo()  ''),
                 startLine = Some 10, endLine = Some 20\<rparr>\<rparr>"
  let ?pb = "\<lparr>point_id = IdNumber 2, score = 0.7, payload = PayloadObj
                \<lparr>filePath = Some (lit ''b.ts''), codeChunk = None,
                 startLine = Some 3, endLine = Some 4\<rparr>\<rparr>"
  let ?ra = "\<lparr>r_filePath = lit ''a.ts'', r_score = 0.8, r_startLine = Some 10,
              r_endLine = Some 20, r_codeChunk = lit ''foo()''\<rparr>"
  let ?env = "\<lparr>fetch = (\<lambda>url init. Inr \<lparr>ok = True, statusText = lit ''OK'', json = Inr ?data\<rparr>),
      qdrant_query = (\<lambda>url collection request. Inr [?pa, ?pb])\<rparr>"
  let ?q = "lit ''parse json''"
  have h: "getWorkspaceVectorStoreName (lit ''/ws'') = lit ''ws-e9be3207f7247f18''
        \<or> qdrant_query ?env (lit ''http://localhost:6333'') (getWorkspaceVectorStoreName (lit ''/ws''))
           = qdrant_query ?env (lit ''http://localhost:6333'') (lit ''ws-e9be3207f7247f18'')"
    by simp
  note t = fixed_tool_is_special_case [where env = ?env and query = ?q and workspacePath = "lit ''/ws''"]
  note eq = t [THEN conjunct2, THEN conjunct2, THEN conjunct2, THEN conjunct2, THEN conjunct2,
               rule_format, OF h, THEN conjunct1]
  have c: "createEmbeddings_fixed ?env ?q = Inr ?data"
    by (simp add: createEmbeddings_fixed_def)
  have s: "searchQdrant_fixed ?env ?data = Inr [?pa, ?pb]"
    by (simp add: searchQdrant_fixed_def first_embedding_def)
  have tr: "trim (lit ''  foo()  '') = lit ''foo()''"
    by (simp add: lit_def, simp add: trim_def is_js_whitespace_def)
  have f: "transformResults_fixed [?pa, ?pb] = Inr [?ra]"
    by (simp add: transformResults_fixed_def filterValidResults_fixed_def
          transformSearchResult_fixed_def js_and_def get_str_def get_num_def tr,
        simp add: lit_def)
  have d: "digits_of 800 = lit ''800''" "digits_of 10 = lit ''10''" "digits_of 20 = lit ''20''"
      "digits_of (Suc 0) = lit ''1''"
    by (simp_all add: digits_of.simps digit_char_def lit_def)
  have x: "toFixed3 0.8 = lit ''0.800''"
    by (simp add: toFixed3_def Let_def pad_zeros_def d, simp add: lit_def digit_char_def)
  have r: \<open>formatResults_fixed [?ra] ?q =
      lit ''Query: "parse json"\<newline>\<newline>Found 1 result:\<newline>\<newline>File: a.ts\<newline>Score: 0.800\<newline>Lines: 10-20\<newline>Code:\<newline>```\<newline>foo()\<newline>```\<newline>\<newline>\<newline>---\<newline>Search completed with 1 result.''\<close>
    using x
    by (simp add: formatResults_fixed_def formatSearchResult_fixed_def plural_s_def d
          line_to_string_def int_to_string_def flip: lit_append)
  have "executeSearchPipeline_fixed ?env ?q = Inr (formatResults_fixed [?ra] ?q)"
    by (simp only: executeSearchPipeline_fixed_def search_attempt_fixed_def c s f sum.case)
  with eq r show ?thesis
    by (simp only:)
qed

section \<open>The collection name\<close>

lemma nibble_cases:
  fixes n :: u32
  assumes "n \<le> 15"
  shows "n \<in> {0, 1, 2, 3, 4, 5, 6, 7, 8, 9, 10, 11, 12, 13, 14, 15}"
proof -
  from assms have "unat n \<le> 15"
    by (simp add: word_le_nat_alt)
  then have "unat n \<in> {0, 1, 2, 3, 4, 5, 6, 7, 8, 9, 10, 11, 12, 13, 14, 15}"
    by auto arith
  then have "(of_nat (unat n) :: u32) \<in> of_nat ` {0, 1, 2, 3, 4, 5, 6, 7, 8, 9, 10, 11, 12, 13, 14, 15}"
    by (rule imageI)
  then show ?thesis
    by simp
qed

lemma hexdigit_lower_hex: "is_lower_hex (hexdigit (x AND 0xF))"
proof -
  have "x AND 0xF \<le> 0xF"
    by (rule word_and_le1)
  then have "x AND 0xF \<in> {0, 1, 2, 3, 4, 5, 6, 7, 8, 9, 10, 11, 12, 13, 14, 15}"
    by (rule nibble_cases)
  moreover have "is_lower_hex (hexdigit n)"
    if "n \<in> {0, 1, 2, 3, 4, 5, 6, 7, 8, 9, 10, 11, 12, 13, 14, 15}" for n
    using that unfolding is_lower_hex_def lit_def by (auto simp: hexdigit_def)
  ultimately show ?thesis
    by blast
qed

lemma hex32_lower_hex: "list_all is_lower_hex (hex32 w)"
  by (simp add: hex32_def hexdigit_lower_hex)

lemma length_hex32: "length (hex32 w) = 8"
  by (simp add: hex32_def)

lemma hex_digest_lower_hex: "list_all is_lower_hex (hex_digest s)"
  by (simp add: hex_digest_def hex32_lower_hex split: prod.splits)

lemma length_hex_digest: "length (hex_digest s) = 64"
  by (simp add: hex_digest_def length_hex32 split: prod.splits)

lemma length_sha256_hex: "length (sha256_hex p) = 64"
  by (simp add: sha256_hex_def length_hex_digest)

lemma name_eq: "getWorkspaceVectorStoreName p = lit ''ws-'' @ take 16 (sha256_hex p)"
  by (simp add: getWorkspaceVectorStoreName_def substring_def ROO_SEARCH_CONFIG_def Let_def
        length_sha256_hex)

lemma length_collection_name: "length (getWorkspaceVectorStoreName p) = 19"
  by (simp add: name_eq length_sha256_hex lit_def)

lemma list_all_take: "list_all P xs \<Longrightarrow> list_all P (take n xs)"
  by (simp add: list_all_iff) (meson in_set_takeD)

text \<open>
  C2: for every workspace path \<open>p\<close> the collection name is \<open>ws-\<close> followed by exactly the
  first 16 characters of the hexadecimal SHA-256 digest of the UTF-8 bytes of \<open>p\<close>: the digest
  has 64 characters, all of them lowercase hexadecimal digits, and the name has 19. The
  name is a function of the path alone: no state and no service is among its arguments, so
  two calls with the same path give the same string.
\<close>

theorem collection_name_is_truncated_digest:
  "getWorkspaceVectorStoreName p = lit ''ws-'' @ take 16 (hex_digest (sha256 (utf8_encode p)))
   \<and> length (hex_digest (sha256 (utf8_encode p))) = 64
   \<and> list_all is_lower_hex (hex_digest (sha256 (utf8_encode p)))
   \<and> length (getWorkspaceVectorStoreName p) = 19
   \<and> take 3 (getWorkspaceVectorStoreName p) = lit ''ws-''
   \<and> list_all is_lower_hex (drop 3 (getWorkspaceVectorStoreName p))"
proof -
  have n: "getWorkspaceVectorStoreName p = lit ''ws-'' @ take 16 (hex_digest (sha256 (utf8_encode p)))"
    using name_eq [of p] by (simp add: sha256_hex_def)
  have l: "length (lit ''ws-'') = 3"
    by (simp add: lit_def)
  have "list_all is_lower_hex (take 16 (hex_digest (sha256 (utf8_encode p))))"
    by (rule list_all_take) (rule hex_digest_lower_hex)
  then show ?thesis
    unfolding n using l by (simp add: length_hex_digest hex_digest_lower_hex)
qed

subsection \<open>A digest computed\<close>

text \<open>The sixty-four rounds for the path \<open>/ws\<close>, four at a time.\<close>

lemma replicate_numeral: "replicate (numeral k) x = x # replicate (pred_numeral k) x"
  by (simp add: numeral_eq_Suc)

lemma ws_rounds_0:
  "rounds (0x428A2F98 # 0x71374491 # 0xB5C0FBCF # 0xE9B5DBA5 # ks)
     [0x2F777380, 0x00000000, 0x00000000, 0x00000000, 0x00000000, 0x00000000, 0x00000000, 0x00000000, 0x00000000, 0x00000000, 0x00000000, 0x00000000, 0x00000000, 0x00000000, 0x00000000, 0x00000018]
     (0x6A09E667, 0xBB67AE85, 0x3C6EF372, 0xA54FF53A, 0x510E527F, 0x9B05688C, 0x1F83D9AB, 0x5BE0CD19)
   = rounds ks
     [0x00000000, 0x00000000, 0x00000000, 0x00000000, 0x00000000, 0x00000000, 0x00000000, 0x00000000, 0x00000000, 0x00000000, 0x00000000, 0x00000018, 0x2F777380, 0x000F0000, 0x57BBCF89, 0x600003C6]
     (0x822C400B, 0x4A76F53C, 0xCB660526, 0x2B7FFBCD, 0x40141175, 0x96737B06, 0x710B7832, 0xC83F5622)"
  apply (simp add: sha_round_def Sigma0_def Sigma1_def Ch_def Maj_def rotr_def Let_def next_w_def
        sigma0_def sigma1_def)
  apply (rule arg_cong2 [where f = "rounds ks"])
   apply simp_all
  done

lemma ws_rounds_4:
  "rounds (0x3956C25B # 0x59F111F1 # 0x923F82A4 # 0xAB1C5ED5 # ks)
     [0x00000000, 0x00000000, 0x00000000, 0x00000000, 0x00000000, 0x00000000, 0x00000000, 0x00000000, 0x00000000, 0x00000000, 0x00000000, 0x00000018, 0x2F777380, 0x000F0000, 0x57BBCF89, 0x600003C6]
     (0x822C400B, 0x4A76F53C, 0xCB660526, 0x2B7FFBCD, 0x40141175, 0x96737B06, 0x710B7832, 0xC83F5622)
   = rounds ks
     [0x00000000, 0x00000000, 0x00000000, 0x00000000, 0x00000000, 0x00000000, 0x00000000, 0x00000018, 0x2F777380, 0x000F0000, 0x57BBCF89, 0x600003C6, 0x9E206FD9, 0x0183FC00, 0x3A3074E7, 0xB0F7D38E]
     (0xBA3030DF, 0x93E3703A, 0xBBE4F07C, 0x408FEE80, 0xFF87D758, 0x1CD07397, 0xE98012BD, 0x4FD275B7)"
  apply (simp add: sha_round_def Sigma0_def Sigma1_def Ch_def Maj_def rotr_def Let_def next_w_def
        sigma0_def sigma1_def)
  apply (rule arg_cong2 [where f = "rounds ks"])
   apply simp_all
  done

lemma ws_rounds_8:
  "rounds (0xD807AA98 # 0x12835B01 # 0x243185BE # 0x550C7DC3 # ks)
     [0x00000000, 0x00000000, 0x00000000, 0x00000000, 0x00000000, 0x00000000, 0x00000000, 0x00000018, 0x2F777380, 0x000F0000, 0x57BBCF89, 0x600003C6, 0x9E206FD9, 0x0183FC00, 0x3A3074E7, 0xB0F7D38E]
     (0xBA3030DF, 0x93E3703A, 0xBBE4F07C, 0x408FEE80, 0xFF87D758, 0x1CD07397, 0xE98012BD, 0x4FD275B7)
   = rounds ks
     [0x00000000, 0x00000000, 0x00000000, 0x00000018, 0x2F777380, 0x000F0000, 0x57BBCF89, 0x600003C6, 0x9E206FD9, 0x0183FC00, 0x3A3074E7, 0xB0F7D38E, 0x34F0F643, 0x6B56831A, 0xC5E4C4A1, 0x30151D3A]
     (0x07D36776, 0xB104C797, 0x9085475C, 0xF3F7CBB8, 0x4C9AE9B2, 0x865A4C36, 0xDA62387F, 0xCFF4A65C)"
  apply (simp add: sha_round_def Sigma0_def Sigma1_def Ch_def Maj_def rotr_def Let_def next_w_def
        sigma0_def sigma1_def)
  apply (rule arg_cong2 [where f = "rounds ks"])
   apply simp_all
  done

lemma ws_rounds_12:
  "rounds (0x72BE5D74 # 0x80DEB1FE # 0x9BDC06A7 # 0xC19BF174 # ks)
     [0x00000000, 0x00000000, 0x00000000, 0x00000018, 0x2F777380, 0x000F0000, 0x57BBCF89, 0x600003C6, 0x9E206FD9, 0x0183FC00, 0x3A3074E7, 0xB0F7D38E, 0x34F0F643, 0x6B56831A, 0xC5E4C4A1, 0x30151D3A]
     (0x07D36776, 0xB104C797, 0x9085475C, 0xF3F7CBB8, 0x4C9AE9B2, 0x865A4C36, 0xDA62387F, 0xCFF4A65C)
   = rounds ks
     [0x2F777380, 0x000F0000, 0x57BBCF89, 0x600003C6, 0x9E206FD9, 0x0183FC00, 0x3A3074E7, 0xB0F7D38E, 0x34F0F643, 0x6B56831A, 0xC5E4C4A1, 0x30151D3A, 0xFC799F7F, 0x6766D036, 0xDD6CF365, 0xC0452890]
     (0x18D24655, 0x7978C0A0, 0x04734F53, 0x149B04DB, 0x13CAEEED, 0xAEF08485, 0xEF78451C, 0x7F3449E4)"
  apply (simp add: sha_round_def Sigma0_def Sigma1_def Ch_def Maj_def rotr_def Let_def next_w_def
        sigma0_def sigma1_def)
  apply (rule arg_cong2 [where f = "rounds ks"])
   apply simp_all
  done

lemma ws_rounds_16:
  "rounds (0xE49B69C1 # 0xEFBE4786 # 0x0FC19DC6 # 0x240CA1CC # ks)
     [0x2F777380, 0x000F0000, 0x57BBCF89, 0x600003C6, 0x9E206FD9, 0x0183FC00, 0x3A3074E7, 0xB0F7D38E, 0x34F0F643, 0x6B56831A, 0xC5E4C4A1, 0x30151D3A, 0xFC799F7F, 0x6766D036, 0xDD6CF365, 0xC0452890]
     (0x18D24655, 0x7978C0A0, 0x04734F53, 0x149B04DB, 0x13CAEEED, 0xAEF08485, 0xEF78451C, 0x7F3449E4)
   = rounds ks
     [0x9E206FD9, 0x0183FC00, 0x3A3074E7, 0xB0F7D38E, 0x34F0F643, 0x6B56831A, 0xC5E4C4A1, 0x30151D3A, 0xFC799F7F, 0x6766D036, 0xDD6CF365, 0xC0452890, 0x42B902C4, 0xE3188981, 0xA92C8C8D, 0x6D4FD9BE]
     (0xFB16854C, 0x38E8FA6E, 0xBA038C3A, 0x64C91ADE, 0xDC7CEFE4, 0xB838D2B6, 0xD9F47F4D, 0x236CD604)"
  apply (simp add: sha_round_def Sigma0_def Sigma1_def Ch_def Maj_def rotr_def Let_def next_w_def
        sigma0_def sigma1_def)
  apply (rule arg_cong2 [where f = "rounds ks"])
   apply simp_all
  done

lemma ws_rounds_20:
  "rounds (0x2DE92C6F # 0x4A7484AA # 0x5CB0A9DC # 0x76F988DA # ks)
     [0x9E206FD9, 0x0183FC00, 0x3A3074E7, 0xB0F7D38E, 0x34F0F643, 0x6B56831A, 0xC5E4C4A1, 0x30151D3A, 0xFC799F7F, 0x6766D036, 0xDD6CF365, 0xC0452890, 0x42B902C4, 0xE3188981, 0xA92C8C8D, 0x6D4FD9BE]
     (0xFB16854C, 0x38E8FA6E, 0xBA038C3A, 0x64C91ADE, 0xDC7CEFE4, 0xB838D2B6, 0xD9F47F4D, 0x236CD604)
   = rounds ks
     [0x34F0F643, 0x6B56831A, 0xC5E4C4A1, 0x30151D3A, 0xFC799F7F, 0x6766D036, 0xDD6CF365, 0xC0452890, 0x42B902C4, 0xE3188981, 0xA92C8C8D, 0x6D4FD9BE, 0xDCB7E2B7, 0xCAF03956, 0x074C8F97, 0xCCCB0892]
     (0xAE822342, 0x79102E92, 0x2FCFAA87, 0xE386A9BE, 0x93A47337, 0x2511F70F, 0xFE9C3F7F, 0x3F95EE23)"
  apply (simp add: sha_round_def Sigma0_def Sigma1_def Ch_def Maj_def rotr_def Let_def next_w_def
        sigma0_def sigma1_def)
  apply (rule arg_cong2 [where f = "rounds ks"])
   apply simp_all
  done

lemma ws_rounds_24:
  "rounds (0x983E5152 # 0xA831C66D # 0xB00327C8 # 0xBF597FC7 # ks)
     [0x34F0F643, 0x6B56831A, 0xC5E4C4A1, 0x30151D3A, 0xFC799F7F, 0x6766D036, 0xDD6CF365, 0xC0452890, 0x42B902C4, 0xE3188981, 0xA92C8C8D, 0x6D4FD9BE, 0xDCB7E2B7, 0xCAF03956, 0x074C8F97, 0xCCCB0892]
     (0xAE822342, 0x79102E92, 0x2FCFAA87, 0xE386A9BE, 0x93A47337, 0x2511F70F, 0xFE9C3F7F, 0x3F95EE23)
   = rounds ks
     [0xFC799F7F, 0x6766D036, 0xDD6CF365, 0xC0452890, 0x42B902C4, 0xE3188981, 0xA92C8C8D, 0x6D4FD9BE, 0xDCB7E2B7, 0xCAF03956, 0x074C8F97, 0xCCCB0892, 0x87BD17E0, 0x640A3D49, 0x918E6063, 0xED89DBCB]
     (0xF389F4D5, 0x0B82095E, 0xEF3CD7B9, 0xCD1E548F, 0x12B81C0F, 0x601534B1, 0x038E98D9, 0xC7E9DD50)"
  apply (simp add: sha_round_def Sigma0_def Sigma1_def Ch_def Maj_def rotr_def Let_def next_w_def
        sigma0_def sigma1_def)
  apply (rule arg_cong2 [where f = "rounds ks"])
   apply simp_all
  done

lemma ws_rounds_28:
  "rounds (0xC6E00BF3 # 0xD5A79147 # 0x06CA6351 # 0x14292967 # ks)
     [0xFC799F7F, 0x6766D036, 0xDD6CF365, 0xC0452890, 0x42B902C4, 0xE3188981, 0xA92C8C8D, 0x6D4FD9BE, 0xDCB7E2B7, 0xCAF03956, 0x074C8F97, 0xCCCB0892, 0x87BD17E0, 0x640A3D49, 0x918E6063, 0xED89DBCB]
     (0xF389F4D5, 0x0B82095E, 0xEF3CD7B9, 0xCD1E548F, 0x12B81C0F, 0x601534B1, 0x038E98D9, 0xC7E9DD50)
   = rounds ks
     [0x42B902C4, 0xE3188981, 0xA92C8C8D, 0x6D4FD9BE, 0xDCB7E2B7, 0xCAF03956, 0x074C8F97, 0xCCCB0892, 0x87BD17E0, 0x640A3D49, 0x918E6063, 0xED89DBCB, 0x97B340C2, 0x322979A1, 0xE6411148, 0x9C4DB872]
     (0xA34FAC99, 0xF830EAF7, 0x6F8CD0AF, 0x57285B1E, 0xAD98A1D5, 0x1E4F2DC3, 0x1EEC7831, 0x3B1F231C)"
  apply (simp add: sha_round_def Sigma0_def Sigma1_def Ch_def Maj_def rotr_def Let_def next_w_def
        sigma0_def sigma1_def)
  apply (rule arg_cong2 [where f = "rounds ks"])
   apply simp_all
  done

lemma ws_rounds_32:
  "rounds (0x27B70A85 # 0x2E1B2138 # 0x4D2C6DFC # 0x53380D13 # ks)
     [0x42B902C4, 0xE3188981, 0xA92C8C8D, 0x6D4FD9BE, 0xDCB7E2B7, 0xCAF03956, 0x074C8F97, 0xCCCB0892, 0x87BD17E0, 0x640A3D49, 0x918E6063, 0xED89DBCB, 0x97B340C2, 0x322979A1, 0xE6411148, 0x9C4DB872]
     (0xA34FAC99, 0xF830EAF7, 0x6F8CD0AF, 0x57285B1E, 0xAD98A1D5, 0x1E4F2DC3, 0x1EEC7831, 0x3B1F231C)
   = rounds ks
     [0xDCB7E2B7, 0xCAF03956, 0x074C8F97, 0xCCCB0892, 0x87BD17E0, 0x640A3D49, 0x918E6063, 0xED89DBCB, 0x97B340C2, 0x322979A1, 0xE6411148, 0x9C4DB872, 0x8F3D989E, 0x0D0B9B68, 0x9D52C14E, 0x505FC500]
     (0x5D1B6032, 0x4701C24E, 0xB7DAB258, 0x82086620, 0xF4A6B902, 0xC5ED9691, 0x55400893, 0xBB7740A9)"
  apply (simp add: sha_round_def Sigma0_def Sigma1_def Ch_def Maj_def rotr_def Let_def next_w_def
        sigma0_def sigma1_def)
  apply (rule arg_cong2 [where f = "rounds ks"])
   apply simp_all
  done

lemma ws_rounds_36:
  "rounds (0x650A7354 # 0x766A0ABB # 0x81C2C92E # 0x92722C85 # ks)
     [0xDCB7E2B7, 0xCAF03956, 0x074C8F97, 0xCCCB0892, 0x87BD17E0, 0x640A3D49, 0x918E6063, 0xED89DBCB, 0x97B340C2, 0x322979A1, 0xE6411148, 0x9C4DB872, 0x8F3D989E, 0x0D0B9B68, 0x9D52C14E, 0x505FC500]
     (0x5D1B6032, 0x4701C24E, 0xB7DAB258, 0x82086620, 0xF4A6B902, 0xC5ED9691, 0x55400893, 0xBB7740A9)
   = rounds ks
     [0x87BD17E0, 0x640A3D49, 0x918E6063, 0xED89DBCB, 0x97B340C2, 0x322979A1, 0xE6411148, 0x9C4DB872, 0x8F3D989E, 0x0D0B9B68, 0x9D52C14E, 0x505FC500, 0x02297BEF, 0xD86849B1, 0x34497749, 0x1DE26797]
     (0xC1E4E852, 0x3851D19B, 0xB89496F7, 0x8E5F928B, 0x611EDBE0, 0xD770C13B, 0x17D1CEDE, 0xBDF71CAE)"
  apply (simp add: sha_round_def Sigma0_def Sigma1_def Ch_def Maj_def rotr_def Let_def next_w_def
        sigma0_def sigma1_def)
  apply (rule arg_cong2 [where f = "rounds ks"])
   apply simp_all
  done

lemma ws_rounds_40:
  "rounds (0xA2BFE8A1 # 0xA81A664B # 0xC24B8B70 # 0xC76C51A3 # ks)
     [0x87BD17E0, 0x640A3D49, 0x918E6063, 0xED89DBCB, 0x97B340C2, 0x322979A1, 0xE6411148, 0x9C4DB872, 0x8F3D989E, 0x0D0B9B68, 0x9D52C14E, 0x505FC500, 0x02297BEF, 0xD86849B1, 0x34497749, 0x1DE26797]
     (0xC1E4E852, 0x3851D19B, 0xB89496F7, 0x8E5F928B, 0x611EDBE0, 0xD770C13B, 0x17D1CEDE, 0xBDF71CAE)
   = rounds ks
     [0x97B340C2, 0x322979A1, 0xE6411148, 0x9C4DB872, 0x8F3D989E, 0x0D0B9B68, 0x9D52C14E, 0x505FC500, 0x02297BEF, 0xD86849B1, 0x34497749, 0x1DE26797, 0x3B246D09, 0xCDA5491A, 0x99B26CFC, 0x453A5963]
     (0xF48C7D1F, 0x0964C72D, 0x27A90822, 0xCD4ED9F8, 0xC0D6CD81, 0x0EEDD878, 0x4F068602, 0x418B1D7C)"
  apply (simp add: sha_round_def Sigma0_def Sigma1_def Ch_def Maj_def rotr_def Let_def next_w_def
        sigma0_def sigma1_def)
  apply (rule arg_cong2 [where f = "rounds ks"])
   apply simp_all
  done

lemma ws_rounds_44:
  "rounds (0xD192E819 # 0xD6990624 # 0xF40E3585 # 0x106AA070 # ks)
     [0x97B340C2, 0x322979A1, 0xE6411148, 0x9C4DB872, 0x8F3D989E, 0x0D0B9B68, 0x9D52C14E, 0x505FC500, 0x02297BEF, 0xD86849B1, 0x34497749, 0x1DE26797, 0x3B246D09, 0xCDA5491A, 0x99B26CFC, 0x453A5963]
     (0xF48C7D1F, 0x0964C72D, 0x27A90822, 0xCD4ED9F8, 0xC0D6CD81, 0x0EEDD878, 0x4F068602, 0x418B1D7C)
   = rounds ks
     [0x8F3D989E, 0x0D0B9B68, 0x9D52C14E, 0x505FC500, 0x02297BEF, 0xD86849B1, 0x34497749, 0x1DE26797, 0x3B246D09, 0xCDA5491A, 0x99B26CFC, 0x453A5963, 0x062C6F34, 0x97560F31, 0x574E0D14, 0xE8ABBE2A]
     (0x7353B8BD, 0x5A5E316B, 0x970110E3, 0xE0C8A38D, 0x708F102F, 0x089B549D, 0x970A18D3, 0x64426B60)"
  apply (simp add: sha_round_def Sigma0_def Sigma1_def Ch_def Maj_def rotr_def Let_def next_w_def
        sigma0_def sigma1_def)
  apply (rule arg_cong2 [where f = "rounds ks"])
   apply simp_all
  done

lemma ws_rounds_48:
  "rounds (0x19A4C116 # 0x1E376C08 # 0x2748774C # 0x34B0BCB5 # ks)
     [0x8F3D989E, 0x0D0B9B68, 0x9D52C14E, 0x505FC500, 0x02297BEF, 0xD86849B1, 0x34497749, 0x1DE26797, 0x3B246D09, 0xCDA5491A, 0x99B26CFC, 0x453A5963, 0x062C6F34, 0x97560F31, 0x574E0D14, 0xE8ABBE2A]
     (0x7353B8BD, 0x5A5E316B, 0x970110E3, 0xE0C8A38D, 0x708F102F, 0x089B549D, 0x970A18D3, 0x64426B60)
   = rounds ks
     [0x02297BEF, 0xD86849B1, 0x34497749, 0x1DE26797, 0x3B246D09, 0xCDA5491A, 0x99B26CFC, 0x453A5963, 0x062C6F34, 0x97560F31, 0x574E0D14, 0xE8ABBE2A, 0x5B81BB9E, 0x8E6B6712, 0xC92274CC, 0xB68F7D55]
     (0x3B343444, 0xA9A62D55, 0x821F6255, 0xBF84CA75, 0x6A8FF1EA, 0x4149D5E5, 0x6E64A276, 0x751CBB98)"
  apply (simp add: sha_round_def Sigma0_def Sigma1_def Ch_def Maj_def rotr_def Let_def next_w_def
        sigma0_def sigma1_def)
  apply (rule arg_cong2 [where f = "rounds ks"])
   apply simp_all
  done

lemma ws_rounds_52:
  "rounds (0x391C0CB3 # 0x4ED8AA4A # 0x5B9CCA4F # 0x682E6FF3 # ks)
     [0x02297BEF, 0xD86849B1, 0x34497749, 0x1DE26797, 0x3B246D09, 0xCDA5491A, 0x99B26CFC, 0x453A5963, 0x062C6F34, 0x97560F31, 0x574E0D14, 0xE8ABBE2A, 0x5B81BB9E, 0x8E6B6712, 0xC92274CC, 0xB68F7D55]
     (0x3B343444, 0xA9A62D55, 0x821F6255, 0xBF84CA75, 0x6A8FF1EA, 0x4149D5E5, 0x6E64A276, 0x751CBB98)
   = rounds ks
     [0x3B246D09, 0xCDA5491A, 0x99B26CFC, 0x453A5963, 0x062C6F34, 0x97560F31, 0x574E0D14, 0xE8ABBE2A, 0x5B81BB9E, 0x8E6B6712, 0xC92274CC, 0xB68F7D55, 0x791EF007, 0x4A181623, 0x777498C8, 0x917BF931]
     (0x7C80D9EE, 0x829B6CE1, 0x91A0F195, 0xEF5F9BEB, 0xC9FFCA68, 0x060A014D, 0x0DA2E2EA, 0x87707DAF)"
  apply (simp add: sha_round_def Sigma0_def Sigma1_def Ch_def Maj_def rotr_def Let_def next_w_def
        sigma0_def sigma1_def)
  apply (rule arg_cong2 [where f = "rounds ks"])
   apply simp_all
  done

lemma ws_rounds_56:
  "rounds (0x748F82EE # 0x78A5636F # 0x84C87814 # 0x8CC70208 # ks)
     [0x3B246D09, 0xCDA5491A, 0x99B26CFC, 0x453A5963, 0x062C6F34, 0x97560F31, 0x574E0D14, 0xE8ABBE2A, 0x5B81BB9E, 0x8E6B6712, 0xC92274CC, 0xB68F7D55, 0x791EF007, 0x4A181623, 0x777498C8, 0x917BF931]
     (0x7C80D9EE, 0x829B6CE1, 0x91A0F195, 0xEF5F9BEB, 0xC9FFCA68, 0x060A014D, 0x0DA2E2EA, 0x87707DAF)
   = rounds ks
     [0x062C6F34, 0x97560F31, 0x574E0D14, 0xE8ABBE2A, 0x5B81BB9E, 0x8E6B6712, 0xC92274CC, 0xB68F7D55, 0x791EF007, 0x4A181623, 0x777498C8, 0x917BF931, 0x275A0D65, 0x8B9C717C, 0xEFCFBAE6, 0xE81151BE]
     (0x2F927589, 0x77DA8FC6, 0x2E59445F, 0x30BFE898, 0xEB3D7D9F, 0x315DD465, 0xD8122DF1, 0x3C6A1F0F)"
  apply (simp add: sha_round_def Sigma0_def Sigma1_def Ch_def Maj_def rotr_def Let_def next_w_def
        sigma0_def sigma1_def)
  apply (rule arg_cong2 [where f = "rounds ks"])
   apply simp_all
  done

lemma ws_rounds_60:
  "rounds (0x90BEFFFA # 0xA4506CEB # 0xBEF9A3F7 # 0xC67178F2 # ks)
     [0x062C6F34, 0x97560F31, 0x574E0D14, 0xE8ABBE2A, 0x5B81BB9E, 0x8E6B6712, 0xC92274CC, 0xB68F7D55, 0x791EF007, 0x4A181623, 0x777498C8, 0x917BF931, 0x275A0D65, 0x8B9C717C, 0xEFCFBAE6, 0xE81151BE]
     (0x2F927589, 0x77DA8FC6, 0x2E59445F, 0x30BFE898, 0xEB3D7D9F, 0x315DD465, 0xD8122DF1, 0x3C6A1F0F)
   = rounds ks
     [0x5B81BB9E, 0x8E6B6712, 0xC92274CC, 0xB68F7D55, 0x791EF007, 0x4A181623, 0x777498C8, 0x917BF931, 0x275A0D65, 0x8B9C717C, 0xEFCFBAE6, 0xE81151BE, 0x6C60E774, 0x329F9DC2, 0xFF68445D, 0xA67C676E]
     (0xA25BC1AB, 0xF5112CE2, 0x58D96DA1, 0x35BA4B6C, 0xBD7460EF, 0xD0C7363F, 0x9075D255, 0x882428E6)"
  apply (simp add: sha_round_def Sigma0_def Sigma1_def Ch_def Maj_def rotr_def Let_def next_w_def
        sigma0_def sigma1_def)
  apply (rule arg_cong2 [where f = "rounds ks"])
   apply simp_all
  done

lemma ws_digest:
  "sha256 [47, 119, 115]
   = (0x0C65A812, 0xB078DB67, 0x95486113, 0xDB0A40A6, 0x0E82B36E, 0x6BCC9ECB, 0xAFF9AC00, 0xE404F5FF)"
proof -
  have b: "blocks (pad [47, 119, 115]) =
      [[47, 119, 115, 128, 0, 0, 0, 0, 0, 0, 0, 0, 0, 0, 0, 0, 0, 0, 0, 0, 0, 0, 0, 0, 0, 0, 0, 0, 0, 0, 0, 0, 0, 0, 0, 0, 0, 0, 0, 0, 0, 0, 0, 0, 0, 0, 0, 0, 0, 0, 0, 0, 0, 0, 0, 0, 0, 0, 0, 0, 0, 0, 0, 24]]"
    by (simp add: pad_def be64_def replicate_numeral blocks.simps)
  have w: "be32 [47, 119, 115, 128, 0, 0, 0, 0, 0, 0, 0, 0, 0, 0, 0, 0, 0, 0, 0, 0, 0, 0, 0, 0, 0, 0, 0, 0, 0, 0, 0, 0, 0, 0, 0, 0, 0, 0, 0, 0, 0, 0, 0, 0, 0, 0, 0, 0, 0, 0, 0, 0, 0, 0, 0, 0, 0, 0, 0, 0, 0, 0, 0, 24] =
      [0x2F777380, 0x00000000, 0x00000000, 0x00000000, 0x00000000, 0x00000000, 0x00000000, 0x00000000, 0x00000000, 0x00000000, 0x00000000, 0x00000000, 0x00000000, 0x00000000, 0x00000000, 0x00000018]"
    by simp
  have r: "rounds K256 [0x2F777380, 0x00000000, 0x00000000, 0x00000000, 0x00000000, 0x00000000, 0x00000000, 0x00000000, 0x00000000, 0x00000000, 0x00000000, 0x00000000, 0x00000000, 0x00000000, 0x00000000, 0x00000018] H0
      = (0xA25BC1AB, 0xF5112CE2, 0x58D96DA1, 0x35BA4B6C, 0xBD7460EF, 0xD0C7363F, 0x9075D255, 0x882428E6)"
    unfolding K256_def H0_def
    by (simp only: ws_rounds_0 ws_rounds_4 ws_rounds_8 ws_rounds_12 ws_rounds_16 ws_rounds_20 ws_rounds_24 ws_rounds_28 ws_rounds_32 ws_rounds_36 ws_rounds_40 ws_rounds_44 ws_rounds_48 ws_rounds_52 ws_rounds_56 ws_rounds_60 rounds.simps(1))
  show ?thesis
    unfolding sha256_def b
    by (simp add: compress_def w r, simp add: add_state_def H0_def)
qed


lemma ws_hex: "sha256_hex (lit ''/ws'') = lit ''0c65a812b078db6795486113db0a40a60e82b36e6bcc9ecbaff9ac00e404f5ff''"
proof -
  have u: "utf8_encode (lit ''/ws'') = [47, 119, 115]"
    by (simp add: lit_def utf8_cp_def is_high_surrogate_def is_low_surrogate_def)
  show ?thesis
    by (simp add: sha256_hex_def u ws_digest hex_digest_def hex32_def hexdigit_def,
        simp add: lit_def)
qed

theorem collection_name_is_truncated_digest_witness:
  "getWorkspaceVectorStoreName (lit ''/ws'') = lit ''ws-0c65a812b078db67''"
  using collection_name_is_truncated_digest [of "lit ''/ws''", THEN conjunct1]
  unfolding ws_hex [unfolded sha256_hex_def]
  by (simp add: lit_def)

section \<open>Two paths, one name\<close>

lemma names_finite: "finite (range getWorkspaceVectorStoreName)"
proof -
  have "range getWorkspaceVectorStoreName \<subseteq> {s. set s \<subseteq> UNIV \<and> length s \<le> 19}"
    by (auto simp: length_collection_name)
  moreover have "finite {s :: jsstring. set s \<subseteq> UNIV \<and> length s \<le> 19}"
    by (rule finite_lists_length_le) simp
  ultimately show ?thesis
    by (rule finite_subset)
qed

lemma infinitely_many_paths: "infinite (range (\<lambda>n. replicate n (0x61 :: 16 word)))"
proof -
  have "inj (\<lambda>n. replicate n (0x61 :: 16 word))"
    by (rule injI) (metis length_replicate)
  then show ?thesis
    by (simp add: finite_image_iff)
qed

lemma names_collide_on_ascii:
  "\<not> inj_on getWorkspaceVectorStoreName (range (\<lambda>n. replicate n (0x61 :: 16 word)))"
proof
  assume "inj_on getWorkspaceVectorStoreName (range (\<lambda>n. replicate n (0x61 :: 16 word)))"
  then have "infinite (getWorkspaceVectorStoreName ` range (\<lambda>n. replicate n (0x61 :: 16 word)))"
    using infinitely_many_paths by (simp add: finite_image_iff)
  moreover have "getWorkspaceVectorStoreName ` range (\<lambda>n. replicate n (0x61 :: 16 word))
                 \<subseteq> range getWorkspaceVectorStoreName"
    by auto
  ultimately show False
    using names_finite finite_subset by blast
qed

text \<open>
  C8, as amended: two workspace paths get the same collection name exactly when the SHA-256
  digests of their UTF-8 bytes agree in the first 16 hexadecimal characters (64 bits);
  paths whose digests differ there get different names. There are only finitely many
  names, so distinct paths can share one.
\<close>

theorem names_equal_iff_digest_prefixes_equal:
  "(getWorkspaceVectorStoreName p1 = getWorkspaceVectorStoreName p2
    \<longleftrightarrow> take 16 (sha256_hex p1) = take 16 (sha256_hex p2))
   \<and> finite (range getWorkspaceVectorStoreName)"
proof
  show "getWorkspaceVectorStoreName p1 = getWorkspaceVectorStoreName p2
    \<longleftrightarrow> take 16 (sha256_hex p1) = take 16 (sha256_hex p2)"
    by (simp add: name_eq)
  show "finite (range getWorkspaceVectorStoreName)"
    by (rule names_finite)
qed

text \<open>The sixty-four rounds for the path \<open>/home/dev/project\<close>.\<close>

lemma project_rounds_0:
  "rounds (0x428A2F98 # 0x71374491 # 0xB5C0FBCF # 0xE9B5DBA5 # ks)
     [0x2F686F6D, 0x652F6465, 0x762F7072, 0x6F6A6563, 0x74800000, 0x00000000, 0x00000000, 0x00000000, 0x00000000, 0x00000000, 0x00000000, 0x00000000, 0x00000000, 0x00000000, 0x00000000, 0x00000088]
     (0x6A09E667, 0xBB67AE85, 0x3C6EF372, 0xA54FF53A, 0x510E527F, 0x9B05688C, 0x1F83D9AB, 0x5BE0CD19)
   = rounds ks
     [0x74800000, 0x00000000, 0x00000000, 0x00000000, 0x00000000, 0x00000000, 0x00000000, 0x00000000, 0x00000000, 0x00000000, 0x00000000, 0x00000088, 0x4EDF5A7C, 0x9BB991CA, 0x0EFCCD90, 0x78DE7352]
     (0x1EB31F00, 0xEE413CD5, 0xD0163341, 0x2B70F7BA, 0x04A06311, 0x88D1E8D6, 0xEC4FB148, 0xC830520F)"
  apply (simp add: sha_round_def Sigma0_def Sigma1_def Ch_def Maj_def rotr_def Let_def next_w_def
        sigma0_def sigma1_def)
  apply (rule arg_cong2 [where f = "rounds ks"])
   apply simp_all
  done

lemma project_rounds_4:
  "rounds (0x3956C25B # 0x59F111F1 # 0x923F82A4 # 0xAB1C5ED5 # ks)
     [0x74800000, 0x00000000, 0x00000000, 0x00000000, 0x00000000, 0x00000000, 0x00000000, 0x00000000, 0x00000000, 0x00000000, 0x00000000, 0x00000088, 0x4EDF5A7C, 0x9BB991CA, 0x0EFCCD90, 0x78DE7352]
     (0x1EB31F00, 0xEE413CD5, 0xD0163341, 0x2B70F7BA, 0x04A06311, 0x88D1E8D6, 0xEC4FB148, 0xC830520F)
   = rounds ks
     [0x00000000, 0x00000000, 0x00000000, 0x00000000, 0x00000000, 0x00000000, 0x00000000, 0x00000088, 0x4EDF5A7C, 0x9BB991CA, 0x0EFCCD90, 0x78DE7352, 0x73F9B992, 0xF7DD44E8, 0xEBE78A75, 0x59B3ECC0]
     (0xCE27C41B, 0xA845D3B8, 0x486E0A87, 0xE6BE1327, 0x63D1FB13, 0x09BD1896, 0x90F4F020, 0x004B997E)"
  apply (simp add: sha_round_def Sigma0_def Sigma1_def Ch_def Maj_def rotr_def Let_def next_w_def
        sigma0_def sigma1_def)
  apply (rule arg_cong2 [where f = "rounds ks"])
   apply simp_all
  done

lemma project_rounds_8:
  "rounds (0xD807AA98 # 0x12835B01 # 0x243185BE # 0x550C7DC3 # ks)
     [0x00000000, 0x00000000, 0x00000000, 0x00000000, 0x00000000, 0x00000000, 0x00000000, 0x00000088, 0x4EDF5A7C, 0x9BB991CA, 0x0EFCCD90, 0x78DE7352, 0x73F9B992, 0xF7DD44E8, 0xEBE78A75, 0x59B3ECC0]
     (0xCE27C41B, 0xA845D3B8, 0x486E0A87, 0xE6BE1327, 0x63D1FB13, 0x09BD1896, 0x90F4F020, 0x004B997E)
   = rounds ks
     [0x00000000, 0x00000000, 0x00000000, 0x00000088, 0x4EDF5A7C, 0x9BB991CA, 0x0EFCCD90, 0x78DE7352, 0x73F9B992, 0xF7DD44E8, 0xEBE78A75, 0x59B3ECC0, 0xD0084337, 0x9AEB18A4, 0xA2A78367, 0x635A1E80]
     (0x047D0E96, 0x260A6E34, 0x60DC5421, 0x45D6C245, 0x1C2B1146, 0x010CE782, 0xC4AC115F, 0x17E523D1)"
  apply (simp add: sha_round_def Sigma0_def Sigma1_def Ch_def Maj_def rotr_def Let_def next_w_def
        sigma0_def sigma1_def)
  apply (rule arg_cong2 [where f = "rounds ks"])
   apply simp_all
  done

lemma project_rounds_12:
  "rounds (0x72BE5D74 # 0x80DEB1FE # 0x9BDC06A7 # 0xC19BF174 # ks)
     [0x00000000, 0x00000000, 0x00000000, 0x00000088, 0x4EDF5A7C, 0x9BB991CA, 0x0EFCCD90, 0x78DE7352, 0x73F9B992, 0xF7DD44E8, 0xEBE78A75, 0x59B3ECC0, 0xD0084337, 0x9AEB18A4, 0xA2A78367, 0x635A1E80]
     (0x047D0E96, 0x260A6E34, 0x60DC5421, 0x45D6C245, 0x1C2B1146, 0x010CE782, 0xC4AC115F, 0x17E523D1)
   = rounds ks
     [0x4EDF5A7C, 0x9BB991CA, 0x0EFCCD90, 0x78DE7352, 0x73F9B992, 0xF7DD44E8, 0xEBE78A75, 0x59B3ECC0, 0xD0084337, 0x9AEB18A4, 0xA2A78367, 0x635A1E80, 0x29D4D1CF, 0x387075B6, 0x5CA9F1B4, 0x2C455136]
     (0x7DB01D14, 0xC479F442, 0xB3F48B8B, 0x965C9319, 0xF6D742D1, 0xF1794352, 0x7F5CE11D, 0xB641CECE)"
  apply (simp add: sha_round_def Sigma0_def Sigma1_def Ch_def Maj_def rotr_def Let_def next_w_def
        sigma0_def sigma1_def)
  apply (rule arg_cong2 [where f = "rounds ks"])
   apply simp_all
  done

lemma project_rounds_16:
  "rounds (0xE49B69C1 # 0xEFBE4786 # 0x0FC19DC6 # 0x240CA1CC # ks)
     [0x4EDF5A7C, 0x9BB991CA, 0x0EFCCD90, 0x78DE7352, 0x73F9B992, 0xF7DD44E8, 0xEBE78A75, 0x59B3ECC0, 0xD0084337, 0x9AEB18A4, 0xA2A78367, 0x635A1E80, 0x29D4D1CF, 0x387075B6, 0x5CA9F1B4, 0x2C455136]
     (0x7DB01D14, 0xC479F442, 0xB3F48B8B, 0x965C9319, 0xF6D742D1, 0xF1794352, 0x7F5CE11D, 0xB641CECE)
   = rounds ks
     [0x73F9B992, 0xF7DD44E8, 0xEBE78A75, 0x59B3ECC0, 0xD0084337, 0x9AEB18A4, 0xA2A78367, 0x635A1E80, 0x29D4D1CF, 0x387075B6, 0x5CA9F1B4, 0x2C455136, 0x92F8EAD1, 0x53BE3BC5, 0x11AC1DE4, 0xC23E8A06]
     (0x07CE666E, 0x0483844E, 0x44D82609, 0x8707BDB4, 0xD3B8E259, 0x8189312C, 0x6107EF34, 0xEFB7F898)"
  apply (simp add: sha_round_def Sigma0_def Sigma1_def Ch_def Maj_def rotr_def Let_def next_w_def
        sigma0_def sigma1_def)
  apply (rule arg_cong2 [where f = "rounds ks"])
   apply simp_all
  done

lemma project_rounds_20:
  "rounds (0x2DE92C6F # 0x4A7484AA # 0x5CB0A9DC # 0x76F988DA # ks)
     [0x73F9B992, 0xF7DD44E8, 0xEBE78A75, 0x59B3ECC0, 0xD0084337, 0x9AEB18A4, 0xA2A78367, 0x635A1E80, 0x29D4D1CF, 0x387075B6, 0x5CA9F1B4, 0x2C455136, 0x92F8EAD1, 0x53BE3BC5, 0x11AC1DE4, 0xC23E8A06]
     (0x07CE666E, 0x0483844E, 0x44D82609, 0x8707BDB4, 0xD3B8E259, 0x8189312C, 0x6107EF34, 0xEFB7F898)
   = rounds ks
     [0xD0084337, 0x9AEB18A4, 0xA2A78367, 0x635A1E80, 0x29D4D1CF, 0x387075B6, 0x5CA9F1B4, 0x2C455136, 0x92F8EAD1, 0x53BE3BC5, 0x11AC1DE4, 0xC23E8A06, 0xD7E3410F, 0xFD30B239, 0x5175D1B5, 0xA17E5185]
     (0xE3B73FC7, 0x9CFCAA68, 0xCB50525C, 0xB3140A86, 0xC95F2CDD, 0x3CB0AF30, 0x5FC7F14A, 0xAA3781F5)"
  apply (simp add: sha_round_def Sigma0_def Sigma1_def Ch_def Maj_def rotr_def Let_def next_w_def
        sigma0_def sigma1_def)
  apply (rule arg_cong2 [where f = "rounds ks"])
   apply simp_all
  done

lemma project_rounds_24:
  "rounds (0x983E5152 # 0xA831C66D # 0xB00327C8 # 0xBF597FC7 # ks)
     [0xD0084337, 0x9AEB18A4, 0xA2A78367, 0x635A1E80, 0x29D4D1CF, 0x387075B6, 0x5CA9F1B4, 0x2C455136, 0x92F8EAD1, 0x53BE3BC5, 0x11AC1DE4, 0xC23E8A06, 0xD7E3410F, 0xFD30B239, 0x5175D1B5, 0xA17E5185]
     (0xE3B73FC7, 0x9CFCAA68, 0xCB50525C, 0xB3140A86, 0xC95F2CDD, 0x3CB0AF30, 0x5FC7F14A, 0xAA3781F5)
   = rounds ks
     [0x29D4D1CF, 0x387075B6, 0x5CA9F1B4, 0x2C455136, 0x92F8EAD1, 0x53BE3BC5, 0x11AC1DE4, 0xC23E8A06, 0xD7E3410F, 0xFD30B239, 0x5175D1B5, 0xA17E5185, 0x1300727B, 0xCB39C94F, 0x276A28A4, 0xC8152C07]
     (0x28B4A71A, 0x92D32C14, 0xE7F0C664, 0x1A3B5554, 0x70D892B6, 0x8259E1B8, 0xD7068495, 0x272D57C8)"
  apply (simp add: sha_round_def Sigma0_def Sigma1_def Ch_def Maj_def rotr_def Let_def next_w_def
        sigma0_def sigma1_def)
  apply (rule arg_cong2 [where f = "rounds ks"])
   apply simp_all
  done

lemma project_rounds_28:
  "rounds (0xC6E00BF3 # 0xD5A79147 # 0x06CA6351 # 0x14292967 # ks)
     [0x29D4D1CF, 0x387075B6, 0x5CA9F1B4, 0x2C455136, 0x92F8EAD1, 0x53BE3BC5, 0x11AC1DE4, 0xC23E8A06, 0xD7E3410F, 0xFD30B239, 0x5175D1B5, 0xA17E5185, 0x1300727B, 0xCB39C94F, 0x276A28A4, 0xC8152C07]
     (0x28B4A71A, 0x92D32C14, 0xE7F0C664, 0x1A3B5554, 0x70D892B6, 0x8259E1B8, 0xD7068495, 0x272D57C8)
   = rounds ks
     [0x92F8EAD1, 0x53BE3BC5, 0x11AC1DE4, 0xC23E8A06, 0xD7E3410F, 0xFD30B239, 0x5175D1B5, 0xA17E5185, 0x1300727B, 0xCB39C94F, 0x276A28A4, 0xC8152C07, 0xEE68321B, 0xDCD8DAAD, 0x5B3AFFC3, 0x4148AFA3]
     (0x5C1B5E37, 0x79186D1C, 0xA952FFCE, 0x85D58770, 0xC46D7395, 0x42382215, 0xC38191BB, 0x9CC031EF)"
  apply (simp add: sha_round_def Sigma0_def Sigma1_def Ch_def Maj_def rotr_def Let_def next_w_def
        sigma0_def sigma1_def)
  apply (rule arg_cong2 [where f = "rounds ks"])
   apply simp_all
  done

lemma project_rounds_32:
  "rounds (0x27B70A85 # 0x2E1B2138 # 0x4D2C6DFC # 0x53380D13 # ks)
     [0x92F8EAD1, 0x53BE3BC5, 0x11AC1DE4, 0xC23E8A06, 0xD7E3410F, 0xFD30B239, 0x5175D1B5, 0xA17E5185, 0x1300727B, 0xCB39C94F, 0x276A28A4, 0xC8152C07, 0xEE68321B, 0xDCD8DAAD, 0x5B3AFFC3, 0x4148AFA3]
     (0x5C1B5E37, 0x79186D1C, 0xA952FFCE, 0x85D58770, 0xC46D7395, 0x42382215, 0xC38191BB, 0x9CC031EF)
   = rounds ks
     [0xD7E3410F, 0xFD30B239, 0x5175D1B5, 0xA17E5185, 0x1300727B, 0xCB39C94F, 0x276A28A4, 0xC8152C07, 0xEE68321B, 0xDCD8DAAD, 0x5B3AFFC3, 0x4148AFA3, 0x8C63AC45, 0x8ACDDEFB, 0x348CD61C, 0xDA371EC4]
     (0xE8D8B238, 0x2F7109DF, 0x1A96F5BF, 0x7309254B, 0xC8E0A54E, 0x1DE26C0A, 0x78C38B97, 0x33FF4376)"
  apply (simp add: sha_round_def Sigma0_def Sigma1_def Ch_def Maj_def rotr_def Let_def next_w_def
        sigma0_def sigma1_def)
  apply (rule arg_cong2 [where f = "rounds ks"])
   apply simp_all
  done

lemma project_rounds_36:
  "rounds (0x650A7354 # 0x766A0ABB # 0x81C2C92E # 0x92722C85 # ks)
     [0xD7E3410F, 0xFD30B239, 0x5175D1B5, 0xA17E5185, 0x1300727B, 0xCB39C94F, 0x276A28A4, 0xC8152C07, 0xEE68321B, 0xDCD8DAAD, 0x5B3AFFC3, 0x4148AFA3, 0x8C63AC45, 0x8ACDDEFB, 0x348CD61C, 0xDA371EC4]
     (0xE8D8B238, 0x2F7109DF, 0x1A96F5BF, 0x7309254B, 0xC8E0A54E, 0x1DE26C0A, 0x78C38B97, 0x33FF4376)
   = rounds ks
     [0x1300727B, 0xCB39C94F, 0x276A28A4, 0xC8152C07, 0xEE68321B, 0xDCD8DAAD, 0x5B3AFFC3, 0x4148AFA3, 0x8C63AC45, 0x8ACDDEFB, 0x348CD61C, 0xDA371EC4, 0xE74EE40D, 0xD9D9335E, 0xCC897D1B, 0xD6AD89D0]
     (0x422A28AF, 0xB9C07E4B, 0x10099320, 0x80829C00, 0x7CAD3D71, 0xAD5A9146, 0xB77B4FB1, 0xFF8185A4)"
  apply (simp add: sha_round_def Sigma0_def Sigma1_def Ch_def Maj_def rotr_def Let_def next_w_def
        sigma0_def sigma1_def)
  apply (rule arg_cong2 [where f = "rounds ks"])
   apply simp_all
  done

lemma project_rounds_40:
  "rounds (0xA2BFE8A1 # 0xA81A664B # 0xC24B8B70 # 0xC76C51A3 # ks)
     [0x1300727B, 0xCB39C94F, 0x276A28A4, 0xC8152C07, 0xEE68321B, 0xDCD8DAAD, 0x5B3AFFC3, 0x4148AFA3, 0x8C63AC45, 0x8ACDDEFB, 0x348CD61C, 0xDA371EC4, 0xE74EE40D, 0xD9D9335E, 0xCC897D1B, 0xD6AD89D0]
     (0x422A28AF, 0xB9C07E4B, 0x10099320, 0x80829C00, 0x7CAD3D71, 0xAD5A9146, 0xB77B4FB1, 0xFF8185A4)
   = rounds ks
     [0xEE68321B, 0xDCD8DAAD, 0x5B3AFFC3, 0x4148AFA3, 0x8C63AC45, 0x8ACDDEFB, 0x348CD61C, 0xDA371EC4, 0xE74EE40D, 0xD9D9335E, 0xCC897D1B, 0xD6AD89D0, 0x238EC775, 0x3C3912EB, 0x1A919B4C, 0x812335B0]
     (0x92E6ED88, 0x7A82C37E, 0x7AA9305C, 0xEF3A2F09, 0xCC0855B8, 0x91903108, 0xB44ABFC2, 0x22626A6C)"
  apply (simp add: sha_round_def Sigma0_def Sigma1_def Ch_def Maj_def rotr_def Let_def next_w_def
        sigma0_def sigma1_def)
  apply (rule arg_cong2 [where f = "rounds ks"])
   apply simp_all
  done

lemma project_rounds_44:
  "rounds (0xD192E819 # 0xD6990624 # 0xF40E3585 # 0x106AA070 # ks)
     [0xEE68321B, 0xDCD8DAAD, 0x5B3AFFC3, 0x4148AFA3, 0x8C63AC45, 0x8ACDDEFB, 0x348CD61C, 0xDA371EC4, 0xE74EE40D, 0xD9D9335E, 0xCC897D1B, 0xD6AD89D0, 0x238EC775, 0x3C3912EB, 0x1A919B4C, 0x812335B0]
     (0x92E6ED88, 0x7A82C37E, 0x7AA9305C, 0xEF3A2F09, 0xCC0855B8, 0x91903108, 0xB44ABFC2, 0x22626A6C)
   = rounds ks
     [0x8C63AC45, 0x8ACDDEFB, 0x348CD61C, 0xDA371EC4, 0xE74EE40D, 0xD9D9335E, 0xCC897D1B, 0xD6AD89D0, 0x238EC775, 0x3C3912EB, 0x1A919B4C, 0x812335B0, 0x3D946DCB, 0xD7D26D09, 0x527F7AEF, 0x516D6E68]
     (0xA632C471, 0x89F17A45, 0x2CCC4EFA, 0x3091AB9E, 0x9A8F3FDE, 0x05D5B0BA, 0xDE76FD10, 0xD1DDEB2D)"
  apply (simp add: sha_round_def Sigma0_def Sigma1_def Ch_def Maj_def rotr_def Let_def next_w_def
        sigma0_def sigma1_def)
  apply (rule arg_cong2 [where f = "rounds ks"])
   apply simp_all
  done

lemma project_rounds_48:
  "rounds (0x19A4C116 # 0x1E376C08 # 0x2748774C # 0x34B0BCB5 # ks)
     [0x8C63AC45, 0x8ACDDEFB, 0x348CD61C, 0xDA371EC4, 0xE74EE40D, 0xD9D9335E, 0xCC897D1B, 0xD6AD89D0, 0x238EC775, 0x3C3912EB, 0x1A919B4C, 0x812335B0, 0x3D946DCB, 0xD7D26D09, 0x527F7AEF, 0x516D6E68]
     (0xA632C471, 0x89F17A45, 0x2CCC4EFA, 0x3091AB9E, 0x9A8F3FDE, 0x05D5B0BA, 0xDE76FD10, 0xD1DDEB2D)
   = rounds ks
     [0xE74EE40D, 0xD9D9335E, 0xCC897D1B, 0xD6AD89D0, 0x238EC775, 0x3C3912EB, 0x1A919B4C, 0x812335B0, 0x3D946DCB, 0xD7D26D09, 0x527F7AEF, 0x516D6E68, 0xACCE5EAF, 0xCBCC8253, 0xEF9CD79D, 0xA74134E8]
     (0xBD3869F7, 0xB12555C5, 0x9CA3BCED, 0xB1035FFA, 0x5B1405DC, 0x783B36BD, 0xC951F856, 0xB3947715)"
  apply (simp add: sha_round_def Sigma0_def Sigma1_def Ch_def Maj_def rotr_def Let_def next_w_def
        sigma0_def sigma1_def)
  apply (rule arg_cong2 [where f = "rounds ks"])
   apply simp_all
  done

lemma project_rounds_52:
  "rounds (0x391C0CB3 # 0x4ED8AA4A # 0x5B9CCA4F # 0x682E6FF3 # ks)
     [0xE74EE40D, 0xD9D9335E, 0xCC897D1B, 0xD6AD89D0, 0x238EC775, 0x3C3912EB, 0x1A919B4C, 0x812335B0, 0x3D946DCB, 0xD7D26D09, 0x527F7AEF, 0x516D6E68, 0xACCE5EAF, 0xCBCC8253, 0xEF9CD79D, 0xA74134E8]
     (0xBD3869F7, 0xB12555C5, 0x9CA3BCED, 0xB1035FFA, 0x5B1405DC, 0x783B36BD, 0xC951F856, 0xB3947715)
   = rounds ks
     [0x238EC775, 0x3C3912EB, 0x1A919B4C, 0x812335B0, 0x3D946DCB, 0xD7D26D09, 0x527F7AEF, 0x516D6E68, 0xACCE5EAF, 0xCBCC8253, 0xEF9CD79D, 0xA74134E8, 0x9A872099, 0x5A6813CD, 0x6B7D2AE0, 0xEEF1127F]
     (0x99FF0544, 0x37392181, 0xB8DA2F6C, 0xEBACEC5C, 0xF63D4C7A, 0xF0B709E1, 0xB09468A6, 0x9E3AA127)"
  apply (simp add: sha_round_def Sigma0_def Sigma1_def Ch_def Maj_def rotr_def Let_def next_w_def
        sigma0_def sigma1_def)
  apply (rule arg_cong2 [where f = "rounds ks"])
   apply simp_all
  done

lemma project_rounds_56:
  "rounds (0x748F82EE # 0x78A5636F # 0x84C87814 # 0x8CC70208 # ks)
     [0x238EC775, 0x3C3912EB, 0x1A919B4C, 0x812335B0, 0x3D946DCB, 0xD7D26D09, 0x527F7AEF, 0x516D6E68, 0xACCE5EAF, 0xCBCC8253, 0xEF9CD79D, 0xA74134E8, 0x9A872099, 0x5A6813CD, 0x6B7D2AE0, 0xEEF1127F]
     (0x99FF0544, 0x37392181, 0xB8DA2F6C, 0xEBACEC5C, 0xF63D4C7A, 0xF0B709E1, 0xB09468A6, 0x9E3AA127)
   = rounds ks
     [0x3D946DCB, 0xD7D26D09, 0x527F7AEF, 0x516D6E68, 0xACCE5EAF, 0xCBCC8253, 0xEF9CD79D, 0xA74134E8, 0x9A872099, 0x5A6813CD, 0x6B7D2AE0, 0xEEF1127F, 0xB4D7D0D9, 0xD4D5B865, 0x9077A9CE, 0x117125EE]
     (0xF918641D, 0x0F389C53, 0x7F97BE9D, 0x4B776663, 0x80B89822, 0xF48630AB, 0xE094B9BA, 0x8CDB10AD)"
  apply (simp add: sha_round_def Sigma0_def Sigma1_def Ch_def Maj_def rotr_def Let_def next_w_def
        sigma0_def sigma1_def)
  apply (rule arg_cong2 [where f = "rounds ks"])
   apply simp_all
  done

lemma project_rounds_60:
  "rounds (0x90BEFFFA # 0xA4506CEB # 0xBEF9A3F7 # 0xC67178F2 # ks)
     [0x3D946DCB, 0xD7D26D09, 0x527F7AEF, 0x516D6E68, 0xACCE5EAF, 0xCBCC8253, 0xEF9CD79D, 0xA74134E8, 0x9A872099, 0x5A6813CD, 0x6B7D2AE0, 0xEEF1127F, 0xB4D7D0D9, 0xD4D5B865, 0x9077A9CE, 0x117125EE]
     (0xF918641D, 0x0F389C53, 0x7F97BE9D, 0x4B776663, 0x80B89822, 0xF48630AB, 0xE094B9BA, 0x8CDB10AD)
   = rounds ks
     [0xACCE5EAF, 0xCBCC8253, 0xEF9CD79D, 0xA74134E8, 0x9A872099, 0x5A6813CD, 0x6B7D2AE0, 0xEEF1127F, 0xB4D7D0D9, 0xD4D5B865, 0x9077A9CE, 0x117125EE, 0x4C0EA606, 0x03EEF3FF, 0x4A56DCE7, 0x8B3195D2]
     (0xB0F20BBC, 0xFFA3AA35, 0xCC077B56, 0xCC23F69C, 0x3CF6B557, 0xCE7DEA8E, 0x7631564E, 0x5948FAC2)"
  apply (simp add: sha_round_def Sigma0_def Sigma1_def Ch_def Maj_def rotr_def Let_def next_w_def
        sigma0_def sigma1_def)
  apply (rule arg_cong2 [where f = "rounds ks"])
   apply simp_all
  done

lemma project_digest:
  "sha256 [47, 104, 111, 109, 101, 47, 100, 101, 118, 47, 112, 114, 111, 106, 101, 99, 116]
   = (0x1AFBF223, 0xBB0B58BA, 0x08766EC8, 0x7173EBD6, 0x8E0507D6, 0x6983531A, 0x95B52FF9, 0xB529C7DB)"
proof -
  have b: "blocks (pad [47, 104, 111, 109, 101, 47, 100, 101, 118, 47, 112, 114, 111, 106, 101, 99, 116]) =
      [[47, 104, 111, 109, 101, 47, 100, 101, 118, 47, 112, 114, 111, 106, 101, 99, 116, 128, 0, 0, 0, 0, 0, 0, 0, 0, 0, 0, 0, 0, 0, 0, 0, 0, 0, 0, 0, 0, 0, 0, 0, 0, 0, 0, 0, 0, 0, 0, 0, 0, 0, 0, 0, 0, 0, 0, 0, 0, 0, 0, 0, 0, 0, 136]]"
    by (simp add: pad_def be64_def replicate_numeral blocks.simps)
  have w: "be32 [47, 104, 111, 109, 101, 47, 100, 101, 118, 47, 112, 114, 111, 106, 101, 99, 116, 128, 0, 0, 0, 0, 0, 0, 0, 0, 0, 0, 0, 0, 0, 0, 0, 0, 0, 0, 0, 0, 0, 0, 0, 0, 0, 0, 0, 0, 0, 0, 0, 0, 0, 0, 0, 0, 0, 0, 0, 0, 0, 0, 0, 0, 0, 136] =
      [0x2F686F6D, 0x652F6465, 0x762F7072, 0x6F6A6563, 0x74800000, 0x00000000, 0x00000000, 0x00000000, 0x00000000, 0x00000000, 0x00000000, 0x00000000, 0x00000000, 0x00000000, 0x00000000, 0x00000088]"
    by simp
  have r: "rounds K256 [0x2F686F6D, 0x652F6465, 0x762F7072, 0x6F6A6563, 0x74800000, 0x00000000, 0x00000000, 0x00000000, 0x00000000, 0x00000000, 0x00000000, 0x00000000, 0x00000000, 0x00000000, 0x00000000, 0x00000088] H0
      = (0xB0F20BBC, 0xFFA3AA35, 0xCC077B56, 0xCC23F69C, 0x3CF6B557, 0xCE7DEA8E, 0x7631564E, 0x5948FAC2)"
    unfolding K256_def H0_def
    by (simp only: project_rounds_0 project_rounds_4 project_rounds_8 project_rounds_12 project_rounds_16 project_rounds_20 project_rounds_24 project_rounds_28 project_rounds_32 project_rounds_36 project_rounds_40 project_rounds_44 project_rounds_48 project_rounds_52 project_rounds_56 project_rounds_60 rounds.simps(1))
  show ?thesis
    unfolding sha256_def b
    by (simp add: compress_def w r, simp add: add_state_def H0_def)
qed


lemma project_hex: "sha256_hex (lit ''/home/dev/project'') = lit ''1afbf223bb0b58ba08766ec87173ebd68e0507d66983531a95b52ff9b529c7db''"
proof -
  have u: "utf8_encode (lit ''/home/dev/project'') = [47, 104, 111, 109, 101, 47, 100, 101, 118, 47, 112, 114, 111, 106, 101, 99, 116]"
    by (simp add: lit_def utf8_cp_def is_high_surrogate_def is_low_surrogate_def)
  show ?thesis
    by (simp add: sha256_hex_def u project_digest hex_digest_def hex32_def hexdigit_def,
        simp add: lit_def)
qed

theorem names_equal_iff_digest_prefixes_equal_witness:
  "getWorkspaceVectorStoreName (lit ''/ws'') \<noteq> getWorkspaceVectorStoreName (lit ''/home/dev/project'')"
  unfolding names_equal_iff_digest_prefixes_equal [THEN conjunct1] ws_hex project_hex
  by (simp add: lit_def)

text \<open>
  C8 as stated makes the name injective. It maps infinitely many paths (already the paths
  \<open>a\<close>, \<open>aa\<close>, \<open>aaa\<close>, and so on) to strings of 19 characters, of which there are finitely
  many, so two distinct paths have the same name.
\<close>

theorem collection_names_not_injective:
  "\<not> (\<forall>p1 p2. p1 \<noteq> p2 \<longrightarrow> getWorkspaceVectorStoreName p1 \<noteq> getWorkspaceVectorStoreName p2)"
proof
  assume a: "\<forall>p1 p2. p1 \<noteq> p2 \<longrightarrow> getWorkspaceVectorStoreName p1 \<noteq> getWorkspaceVectorStoreName p2"
  have "inj_on getWorkspaceVectorStoreName (range (\<lambda>n. replicate n (0x61 :: 16 word)))"
    by (rule inj_onI) (use a in blast)
  with names_collide_on_ascii show False
    by simp
qed

text \<open>
  A collision in sight: a string that is one unpaired surrogate is encoded as U+FFFD,
  whichever surrogate it is.
\<close>

lemma lone_surrogates_collide:
  "getWorkspaceVectorStoreName [0xD800] = getWorkspaceVectorStoreName [0xDC00]
   \<and> [0xD800] \<noteq> ([0xDC00] :: jsstring)"
  by (simp add: getWorkspaceVectorStoreName_def sha256_hex_def is_high_surrogate_def
        is_low_surrogate_def)

end
